theory Spec2Isabelle
  imports Complex_Main
begin

section \<open>JavaScript values and string primitives\<close>

text \<open>
  Strings are lists of 8-bit characters read as Latin-1 code points. The primitives below
  are the methods of the JavaScript string type that the plugin calls
  (\<^verbatim>\<open>startsWith\<close>, \<^verbatim>\<open>includes\<close>, \<^verbatim>\<open>toLowerCase\<close>, \<^verbatim>\<open>trim\<close>, \<^verbatim>\<open>split(',')\<close>) and the
  character classes \<^verbatim>\<open>\d\<close> and \<^verbatim>\<open>\s\<close> of its regular expressions.
\<close>

fun startsWith :: "string \<Rightarrow> string \<Rightarrow> bool" where
  "startsWith s [] = True"
| "startsWith [] (p # ps) = False"
| "startsWith (c # cs) (p # ps) = (c = p \<and> startsWith cs ps)"

fun includesStr :: "string \<Rightarrow> string \<Rightarrow> bool" where
  "includesStr [] sub = (sub = [])"
| "includesStr (c # cs) sub = (startsWith (c # cs) sub \<or> includesStr cs sub)"

definition endsWith :: "string \<Rightarrow> string \<Rightarrow> bool" where
  "endsWith s p = startsWith (rev s) (rev p)"

definition toLowerChar :: "char \<Rightarrow> char" where
  "toLowerChar c =
     (case map_of (zip ''ABCDEFGHIJKLMNOPQRSTUVWXYZ'' ''abcdefghijklmnopqrstuvwxyz'') c of
        Some l \<Rightarrow> l
      | None \<Rightarrow>
          (let n = (of_char c :: nat)
           in if 192 \<le> n \<and> n \<le> 222 \<and> n \<noteq> 215 then char_of (n + 32) else c))"

definition toLowerCase :: "string \<Rightarrow> string" where
  "toLowerCase s = map toLowerChar s"

definition isDigit :: "char \<Rightarrow> bool" where
  "isDigit c = (c \<in> set ''0123456789'')"

definition isSpace :: "char \<Rightarrow> bool" where
  "isSpace c = ((of_char c :: nat) \<in> {9, 10, 11, 12, 13, 32, 160})"

definition trim :: "string \<Rightarrow> string" where
  "trim s = rev (dropWhile isSpace (rev (dropWhile isSpace s)))"

fun splitOn :: "char \<Rightarrow> string \<Rightarrow> string list" where
  "splitOn d [] = [[]]"
| "splitOn d (c # cs) =
     (if c = d then [] # splitOn d cs
      else (case splitOn d cs of [] \<Rightarrow> [[c]] | w # ws \<Rightarrow> (c # w) # ws))"

fun joinWith :: "string \<Rightarrow> string list \<Rightarrow> string" where
  "joinWith sep [] = []"
| "joinWith sep [x] = x"
| "joinWith sep (x # y # ys) = x @ sep @ joinWith sep (y # ys)"

text \<open>JavaScript numbers: the finite values and the three special ones.\<close>

datatype jsnum = Num real | NaN | PosInf | NegInf

datatype jsval =
    JUndefined
  | JNull
  | JBool bool
  | JNum jsnum
  | JStr string
  | JArr "jsval list"
  | JObj "(string \<times> jsval) list"

text \<open>Truthiness, as \<^verbatim>\<open>!v\<close>, \<^verbatim>\<open>v || d\<close> and \<^verbatim>\<open>if (v)\<close> test it.\<close>

fun truthy :: "jsval \<Rightarrow> bool" where
  "truthy JUndefined = False"
| "truthy JNull = False"
| "truthy (JBool b) = b"
| "truthy (JNum (Num r)) = (r \<noteq> 0)"
| "truthy (JNum NaN) = False"
| "truthy (JNum PosInf) = True"
| "truthy (JNum NegInf) = True"
| "truthy (JStr s) = (s \<noteq> [])"
| "truthy (JArr xs) = True"
| "truthy (JObj kvs) = True"

text \<open>
  The services of the JavaScript runtime whose results the plugin only passes on:
  number formatting, \<^verbatim>\<open>Number(v)\<close> on a value that is not a number, date parsing
  (\<^verbatim>\<open>new Date(s)\<close> followed by \<^verbatim>\<open>toISOString()\<close>; \<open>None\<close> when the date is invalid or
  \<^verbatim>\<open>toISOString\<close> raises) and \<^verbatim>\<open>JSON.stringify\<close> (\<open>None\<close> when it raises or yields
  \<^verbatim>\<open>undefined\<close>).
\<close>

record js_runtime =
  numToString :: "jsnum \<Rightarrow> string"
  toNumber :: "jsval \<Rightarrow> jsnum"
  parseDate :: "string \<Rightarrow> string option"
  timestampToISO :: "jsnum \<Rightarrow> string option"
  jsonStringify :: "jsval \<Rightarrow> string option"

text \<open>\<^verbatim>\<open>String(v)\<close> on plain data.\<close>

fun String_js :: "js_runtime \<Rightarrow> jsval \<Rightarrow> string" where
  "String_js rt JUndefined = ''undefined''"
| "String_js rt JNull = ''null''"
| "String_js rt (JBool b) = (if b then ''true'' else ''false'')"
| "String_js rt (JNum n) = numToString rt n"
| "String_js rt (JStr s) = s"
| "String_js rt (JArr xs) =
     joinWith '','' (map (\<lambda>x. if x = JUndefined \<or> x = JNull then [] else String_js rt x) xs)"
| "String_js rt (JObj kvs) = ''[object Object]''"

text \<open>Property access on a plain object given by its entries; a missing key reads
  \<^verbatim>\<open>undefined\<close>.\<close>

definition getProp :: "(string \<times> jsval) list \<Rightarrow> string \<Rightarrow> jsval" where
  "getProp obj k = (case map_of obj k of None \<Rightarrow> JUndefined | Some v \<Rightarrow> v)"

text \<open>
  Strict equality \<^verbatim>\<open>===\<close> on plain data: two primitives are equal when they have the same type
  and the same value, \<^verbatim>\<open>NaN\<close> equals nothing, and an array or an object equals only itself,
  which two values read from different places never are.
\<close>

fun strictEquals :: "jsval \<Rightarrow> jsval \<Rightarrow> bool" where
  "strictEquals JUndefined JUndefined = True"
| "strictEquals JNull JNull = True"
| "strictEquals (JBool a) (JBool b) = (a = b)"
| "strictEquals (JNum a) (JNum b) = (a = b \<and> a \<noteq> NaN)"
| "strictEquals (JStr a) (JStr b) = (a = b)"
| "strictEquals a b = False"

section \<open>constants/property-filters.ts\<close>

definition SYSTEM_PROPERTIES :: "string list" where
  "SYSTEM_PROPERTIES =
     [''id'', ''space_id'', ''created_date'', ''last_modified_date'', ''last_opened_date'',
      ''type_key'', ''name'']"

definition READ_ONLY_PROPERTIES :: "string list" where
  "READ_ONLY_PROPERTIES =
     [''links'', ''backlinks'', ''created_date'', ''last_modified_date'', ''last_opened_date'',
      ''last_modified_by'', ''creator'', ''size_in_bytes'', ''file_ext'', ''height_in_pixels'',
      ''width_in_pixels'', ''camera_iso'', ''aperture'', ''exposure'', ''focal_ratio'']"

definition ALLOWED_PROPERTY_FORMATS :: "string list" where
  "ALLOWED_PROPERTY_FORMATS = [''text'', ''number'']"

definition FRONTMATTER_SKIP_PROPERTIES :: "string list" where
  "FRONTMATTER_SKIP_PROPERTIES =
     [''last_modified_by'', ''last_opened_date'', ''creator'', ''created_date'']"

section \<open>utils/tag-resolver.ts\<close>

record TagInfo =
  tag_id :: string
  tag_name :: string
  tag_color :: "string option"

text \<open>
  The two maps of the class. Times are milliseconds as \<^verbatim>\<open>Date.now()\<close> returns them; each
  method takes the reading of the clock at its call as the argument \<open>now\<close>.
\<close>

record TagResolver =
  tagCache :: "string \<rightharpoonup> TagInfo list"
  cacheTimestamps :: "string \<rightharpoonup> int"

definition CACHE_TTL :: int where
  "CACHE_TTL = 5 * 60 * 1000"

definition newTagResolver :: TagResolver where
  "newTagResolver = \<lparr> tagCache = Map.empty, cacheTimestamps = Map.empty \<rparr>"

definition setTagsForProperty :: "int \<Rightarrow> string \<Rightarrow> TagInfo list \<Rightarrow> TagResolver \<Rightarrow> TagResolver" where
  "setTagsForProperty now propertyId tags tr =
     tr\<lparr> tagCache := (tagCache tr)(propertyId \<mapsto> tags),
         cacheTimestamps := (cacheTimestamps tr)(propertyId \<mapsto> now) \<rparr>"

definition clearPropertyCache :: "string \<Rightarrow> TagResolver \<Rightarrow> TagResolver" where
  "clearPropertyCache propertyId tr =
     tr\<lparr> tagCache := (tagCache tr)(propertyId := None),
         cacheTimestamps := (cacheTimestamps tr)(propertyId := None) \<rparr>"

text \<open>
  \<^verbatim>\<open>getTagsForProperty\<close>: the test \<^verbatim>\<open>!timestamp\<close> holds for a missing entry and for the
  timestamp 0; the entry is dropped when it holds or when \<^verbatim>\<open>Date.now() - timestamp > CACHE_TTL\<close>.
  The result is the returned list (or \<open>None\<close> for \<^verbatim>\<open>null\<close>) with the updated resolver.
\<close>

definition getTagsForProperty :: "int \<Rightarrow> string \<Rightarrow> TagResolver \<Rightarrow> TagInfo list option \<times> TagResolver" where
  "getTagsForProperty now propertyId tr =
     (case cacheTimestamps tr propertyId of
        None \<Rightarrow> (None, clearPropertyCache propertyId tr)
      | Some timestamp \<Rightarrow>
          if timestamp = 0 \<or> now - timestamp > CACHE_TTL
          then (None, clearPropertyCache propertyId tr)
          else (tagCache tr propertyId, tr))"

definition resolveTagNameToId :: "int \<Rightarrow> string \<Rightarrow> string \<Rightarrow> TagResolver \<Rightarrow> string option \<times> TagResolver" where
  "resolveTagNameToId now propertyId tagName tr =
     (case getTagsForProperty now propertyId tr of
        (None, tr') \<Rightarrow> (None, tr')
      | (Some tags, tr') \<Rightarrow>
          (case find (\<lambda>t. toLowerCase (tag_name t) = toLowerCase tagName) tags of
             None \<Rightarrow> (None, tr')
           | Some tag \<Rightarrow> (Some (tag_id tag), tr')))"

definition resolveTagIdToName :: "int \<Rightarrow> string \<Rightarrow> string \<Rightarrow> TagResolver \<Rightarrow> string option \<times> TagResolver" where
  "resolveTagIdToName now propertyId tagId tr =
     (case getTagsForProperty now propertyId tr of
        (None, tr') \<Rightarrow> (None, tr')
      | (Some tags, tr') \<Rightarrow>
          (case find (\<lambda>t. tag_id t = tagId) tags of
             None \<Rightarrow> (None, tr')
           | Some tag \<Rightarrow> (Some (tag_name tag), tr')))"

definition areTagsCached :: "int \<Rightarrow> string \<Rightarrow> TagResolver \<Rightarrow> bool" where
  "areTagsCached now propertyId tr =
     (case cacheTimestamps tr propertyId of
        None \<Rightarrow> False
      | Some timestamp \<Rightarrow> now - timestamp \<le> CACHE_TTL)"

section \<open>utils/property-processor.ts\<close>

text \<open>
  A wire Property Value \<^verbatim>\<open>{ key, <format>: value }\<close>: the key and the one populated branch.
\<close>

datatype PropertyPayload =
    PText string
  | PNumber jsnum
  | PCheckbox bool
  | PDate string
  | PUrl string
  | PEmail string
  | PPhone string
  | PSelect string
  | PMultiSelect "string list"
  | PFiles "string list"
  | PObjects "string list"

record PropertyValue =
  pv_key :: string
  pv_payload :: PropertyPayload

record AnyTypeProperty =
  prop_id :: string
  prop_key :: string
  prop_name :: string
  prop_format :: string

text \<open>\<^verbatim>\<open>propertyMap.set(prop.key, prop)\<close> for each definition in turn: the last one of a key
  stays.\<close>

definition propertyMap :: "AnyTypeProperty list \<Rightarrow> string \<rightharpoonup> AnyTypeProperty" where
  "propertyMap availableProperties = map_of (rev (map (\<lambda>p. (prop_key p, p)) availableProperties))"

subsection \<open>The fixed regular expressions\<close>

datatype pat = D | L char

fun matchPat :: "pat list \<Rightarrow> string \<Rightarrow> string option" where
  "matchPat [] s = Some s"
| "matchPat (p # ps) [] = None"
| "matchPat (D # ps) (c # cs) = (if isDigit c then matchPat ps cs else None)"
| "matchPat (L x # ps) (c # cs) = (if c = x then matchPat ps cs else None)"

definition datePat :: "pat list" where
  "datePat = [D, D, D, D, L CHR ''-'', D, D, L CHR ''-'', D, D]"

definition dateTimePat :: "pat list" where
  "dateTimePat = datePat @ [L CHR ''T'', D, D, L CHR '':'', D, D, L CHR '':'', D, D]"

text \<open>\<^verbatim>\<open>/^\d{4}-\d{2}-\d{2}/\<close>, \<^verbatim>\<open>/^\d{4}-\d{2}-\d{2}T/\<close>, \<^verbatim>\<open>/^\d{4}-\d{2}-\d{2}T\d{2}:\d{2}:\d{2}/\<close>,
  \<^verbatim>\<open>/^\d{4}-\d{2}-\d{2}$/\<close> and \<^verbatim>\<open>/^[\d\s\-+()]+$/\<close>.\<close>

definition isoDatePrefix :: "string \<Rightarrow> bool" where
  "isoDatePrefix s = (matchPat datePat s \<noteq> None)"

definition isoDateTPrefix :: "string \<Rightarrow> bool" where
  "isoDateTPrefix s = (matchPat (datePat @ [L CHR ''T'']) s \<noteq> None)"

definition isoDateTimePrefix :: "string \<Rightarrow> bool" where
  "isoDateTimePrefix s = (matchPat dateTimePat s \<noteq> None)"

definition isoDateExact :: "string \<Rightarrow> bool" where
  "isoDateExact s = (matchPat datePat s = Some [])"

definition phoneLike :: "string \<Rightarrow> bool" where
  "phoneLike s = (s \<noteq> [] \<and> list_all (\<lambda>c. isDigit c \<or> isSpace c \<or> c \<in> set ''-+()'') s)"

subsection \<open>Format inference\<close>

definition tagKeywords :: "string list" where
  "tagKeywords =
     [''tag'', ''tags'', ''category'', ''categories'', ''status'', ''priority'', ''type'',
      ''label'', ''labels'']"

definition isTagProperty :: "string \<Rightarrow> bool" where
  "isTagProperty key =
     (let lowerKey = toLowerCase key
      in list_ex (\<lambda>keyword. includesStr lowerKey keyword) tagKeywords \<or> lowerKey = ''tags'')"

fun isArray :: "jsval \<Rightarrow> bool" where
  "isArray (JArr xs) = True"
| "isArray v = False"

fun isString :: "jsval \<Rightarrow> bool" where
  "isString (JStr s) = True"
| "isString v = False"

text \<open>\<^verbatim>\<open>inferPropertyFormat\<close>; \<open>None\<close> is the \<^verbatim>\<open>null\<close> of "cannot infer".\<close>

definition inferPropertyFormat :: "string \<Rightarrow> jsval \<Rightarrow> string option" where
  "inferPropertyFormat key v =
     (if isTagProperty key \<and> isArray v then Some ''multi_select''
      else if isTagProperty key \<and> isString v then Some ''select''
      else if toLowerCase key = ''tags'' then Some ''multi_select''
      else (case v of
              JStr s \<Rightarrow>
                if isoDatePrefix s \<or> isoDateTPrefix s then Some ''date''
                else if startsWith s ''http://'' \<or> startsWith s ''https://'' then Some ''url''
                else if includesStr s ''@'' \<and> includesStr s ''.'' then Some ''email''
                else if phoneLike s then Some ''phone''
                else Some ''text''
            | JNum n \<Rightarrow> Some ''number''
            | JBool b \<Rightarrow> Some ''checkbox''
            | JArr xs \<Rightarrow> Some ''multi_select''
            | _ \<Rightarrow> None))"

subsection \<open>Formatting one value\<close>

text \<open>The array and comma-separated readings shared by \<^verbatim>\<open>multi_select\<close>, \<^verbatim>\<open>files\<close> and
  \<^verbatim>\<open>objects\<close>; \<open>None\<close> when the value is neither an array nor a string.\<close>

definition stringList :: "js_runtime \<Rightarrow> jsval \<Rightarrow> string list option" where
  "stringList rt v =
     (case v of
        JArr xs \<Rightarrow>
          Some (filter (\<lambda>s. s \<noteq> [])
                  (map (\<lambda>x. trim (String_js rt x))
                     (filter (\<lambda>x. x \<noteq> JNull \<and> x \<noteq> JUndefined \<and> x \<noteq> JStr []) xs)))
      | JStr s \<Rightarrow> Some (filter (\<lambda>s. s \<noteq> []) (map trim (splitOn CHR '','' s)))
      | _ \<Rightarrow> None)"

text \<open>\<^verbatim>\<open>propertyId && this.tagResolver.areTagsCached(propertyId)\<close>: the property id to
  resolve against, if the test holds.\<close>

definition cachedPropertyId :: "int \<Rightarrow> string option \<Rightarrow> TagResolver \<Rightarrow> string option" where
  "cachedPropertyId now propertyId tr =
     (case propertyId of
        None \<Rightarrow> None
      | Some pid \<Rightarrow> if pid \<noteq> [] \<and> areTagsCached now pid tr then Some pid else None)"

fun resolveEach :: "int \<Rightarrow> string \<Rightarrow> string list \<Rightarrow> TagResolver \<Rightarrow> string list \<times> TagResolver" where
  "resolveEach now pid [] tr = ([], tr)"
| "resolveEach now pid (tagName # rest) tr =
     (case resolveTagNameToId now pid tagName tr of
        (r, tr') \<Rightarrow>
          (let v = (case r of
                      Some tagId \<Rightarrow> if tagId \<noteq> [] then tagId else tagName
                    | None \<Rightarrow> tagName)
           in case resolveEach now pid rest tr' of (vs, tr'') \<Rightarrow> (v # vs, tr'')))"

definition processTagProperty ::
  "js_runtime \<Rightarrow> int \<Rightarrow> string \<Rightarrow> jsval \<Rightarrow> string \<Rightarrow> string option \<Rightarrow> TagResolver
     \<Rightarrow> PropertyValue option \<times> TagResolver" where
  "processTagProperty rt now key v format propertyId tr =
     (if format = ''select'' then
        (let selectValue = trim (String_js rt v)
         in if selectValue = [] then (None, tr)
            else
              (case cachedPropertyId now propertyId tr of
                 Some pid \<Rightarrow>
                   (case resolveTagNameToId now pid selectValue tr of
                      (r, tr') \<Rightarrow>
                        (case r of
                           Some tagId \<Rightarrow>
                             if tagId \<noteq> []
                             then (Some \<lparr>pv_key = key, pv_payload = PSelect tagId\<rparr>, tr')
                             else (Some \<lparr>pv_key = key, pv_payload = PSelect selectValue\<rparr>, tr')
                         | None \<Rightarrow>
                             (Some \<lparr>pv_key = key, pv_payload = PSelect selectValue\<rparr>, tr')))
               | None \<Rightarrow> (Some \<lparr>pv_key = key, pv_payload = PSelect selectValue\<rparr>, tr)))
      else
        (case stringList rt v of
           None \<Rightarrow> (None, tr)
         | Some arrayValue \<Rightarrow>
             if arrayValue = [] then (None, tr)
             else
               (case cachedPropertyId now propertyId tr of
                  Some pid \<Rightarrow>
                    (case resolveEach now pid arrayValue tr of
                       (resolvedValues, tr') \<Rightarrow>
                         (Some \<lparr>pv_key = key, pv_payload = PMultiSelect resolvedValues\<rparr>, tr'))
                | None \<Rightarrow>
                    (Some \<lparr>pv_key = key, pv_payload = PMultiSelect arrayValue\<rparr>, tr))))"

text \<open>
  \<^verbatim>\<open>formatForAPI\<close>. \<open>None\<close> is its \<^verbatim>\<open>null\<close>, which is also what its \<^verbatim>\<open>catch\<close> returns; the one
  call in its body that can raise on plain data is \<^verbatim>\<open>new Date(n).toISOString()\<close>.
\<close>

definition formatForAPI ::
  "js_runtime \<Rightarrow> int \<Rightarrow> string \<Rightarrow> jsval \<Rightarrow> string \<Rightarrow> string option \<Rightarrow> TagResolver
     \<Rightarrow> PropertyValue option \<times> TagResolver" where
  "formatForAPI rt now key v format propertyId tr =
     (if v = JNull \<or> v = JUndefined then (None, tr)
      else if v = JStr [] then (None, tr)
      else if format = ''text'' then
        (Some \<lparr>pv_key = key, pv_payload = PText (String_js rt v)\<rparr>, tr)
      else if format = ''number'' then
        (case (case v of JNum n \<Rightarrow> n | _ \<Rightarrow> toNumber rt v) of
           Num r \<Rightarrow> (Some \<lparr>pv_key = key, pv_payload = PNumber (Num r)\<rparr>, tr)
         | _ \<Rightarrow> (None, tr))
      else if format = ''checkbox'' then
        (let boolValue =
           (case v of
              JBool b \<Rightarrow> b
            | JStr s \<Rightarrow> toLowerCase s = ''true'' \<or> s = ''1'' \<or> s = ''yes''
            | JNum n \<Rightarrow> n \<noteq> Num 0
            | _ \<Rightarrow> truthy v)
         in (Some \<lparr>pv_key = key, pv_payload = PCheckbox boolValue\<rparr>, tr))
      else if format = ''date'' then
        (case v of
           JStr s \<Rightarrow>
             if isoDateTimePrefix s then (Some \<lparr>pv_key = key, pv_payload = PDate s\<rparr>, tr)
             else if isoDateExact s
             then (Some \<lparr>pv_key = key, pv_payload = PDate (s @ ''T00:00:00.000Z'')\<rparr>, tr)
             else (case parseDate rt s of
                     None \<Rightarrow> (None, tr)
                   | Some isoString \<Rightarrow> (Some \<lparr>pv_key = key, pv_payload = PDate isoString\<rparr>, tr))
         | JNum n \<Rightarrow>
             (case timestampToISO rt n of
                None \<Rightarrow> (None, tr)
              | Some isoString \<Rightarrow> (Some \<lparr>pv_key = key, pv_payload = PDate isoString\<rparr>, tr))
         | _ \<Rightarrow> (None, tr))
      else if format = ''url'' then
        (let urlString = String_js rt v
         in if startsWith urlString ''http://'' \<or> startsWith urlString ''https://''
               \<or> startsWith urlString ''ftp://'' \<or> startsWith urlString ''mailto:''
            then (Some \<lparr>pv_key = key, pv_payload = PUrl urlString\<rparr>, tr)
            else if includesStr urlString ''.'' \<and> \<not> includesStr urlString '' ''
            then (Some \<lparr>pv_key = key, pv_payload = PUrl (''https://'' @ urlString)\<rparr>, tr)
            else (None, tr))
      else if format = ''email'' then
        (let emailString = trim (String_js rt v)
         in if includesStr emailString ''@'' \<and> includesStr emailString ''.''
            then (Some \<lparr>pv_key = key, pv_payload = PEmail emailString\<rparr>, tr)
            else (None, tr))
      else if format = ''phone'' then
        (Some \<lparr>pv_key = key, pv_payload = PPhone (trim (String_js rt v))\<rparr>, tr)
      else if format = ''select'' then processTagProperty rt now key v ''select'' propertyId tr
      else if format = ''multi_select'' then
        processTagProperty rt now key v ''multi_select'' propertyId tr
      else if format = ''files'' then
        (case stringList rt v of
           None \<Rightarrow> (None, tr)
         | Some fileIds \<Rightarrow>
             if fileIds = [] then (None, tr)
             else (Some \<lparr>pv_key = key, pv_payload = PFiles fileIds\<rparr>, tr))
      else if format = ''objects'' then
        (case stringList rt v of
           None \<Rightarrow> (None, tr)
         | Some objectIds \<Rightarrow>
             if objectIds = [] then (None, tr)
             else (Some \<lparr>pv_key = key, pv_payload = PObjects objectIds\<rparr>, tr))
      else (None, tr))"

subsection \<open>The two encode operations\<close>

text \<open>
  The loop over \<^verbatim>\<open>Object.entries(frontmatter)\<close>. The bodies of \<^verbatim>\<open>extractFromFrontmatter\<close> and
  \<^verbatim>\<open>buildValidatedProperties\<close> are the same statement for statement and differ in their log
  messages only, so one loop serves both. The list of preserved keys is only logged and is
  left out; the tag resolver, which \<^verbatim>\<open>formatForAPI\<close> may change, is returned with the result.
\<close>

fun encodeEntries ::
  "js_runtime \<Rightarrow> int \<Rightarrow> bool \<Rightarrow> (string \<rightharpoonup> AnyTypeProperty) \<Rightarrow> (string \<times> jsval) list
     \<Rightarrow> TagResolver \<Rightarrow> PropertyValue list \<times> TagResolver" where
  "encodeEntries rt now skipSystemProperties pm [] tr = ([], tr)"
| "encodeEntries rt now skipSystemProperties pm ((key, v) # rest) tr =
     (if skipSystemProperties \<and> key \<in> set SYSTEM_PROPERTIES
      then encodeEntries rt now skipSystemProperties pm rest tr
      else if key \<in> set READ_ONLY_PROPERTIES
      then encodeEntries rt now skipSystemProperties pm rest tr
      else
        (case pm key of
           None \<Rightarrow>
             (case inferPropertyFormat key v of
                Some inferredFormat \<Rightarrow>
                  (case formatForAPI rt now key v inferredFormat None tr of
                     (Some formattedProperty, tr') \<Rightarrow>
                       (case encodeEntries rt now skipSystemProperties pm rest tr' of
                          (ps, tr'') \<Rightarrow> (formattedProperty # ps, tr''))
                   | (None, tr') \<Rightarrow> encodeEntries rt now skipSystemProperties pm rest tr')
              | None \<Rightarrow> encodeEntries rt now skipSystemProperties pm rest tr)
         | Some propertyDef \<Rightarrow>
             if prop_format propertyDef \<notin> set ALLOWED_PROPERTY_FORMATS
             then encodeEntries rt now skipSystemProperties pm rest tr
             else
               (case formatForAPI rt now key v (prop_format propertyDef)
                       (Some (prop_id propertyDef)) tr of
                  (Some formattedProperty, tr') \<Rightarrow>
                    (case encodeEntries rt now skipSystemProperties pm rest tr' of
                       (ps, tr'') \<Rightarrow> (formattedProperty # ps, tr''))
                | (None, tr') \<Rightarrow> encodeEntries rt now skipSystemProperties pm rest tr')))"

definition extractFromFrontmatter ::
  "js_runtime \<Rightarrow> int \<Rightarrow> (string \<times> jsval) list \<Rightarrow> AnyTypeProperty list \<Rightarrow> bool \<Rightarrow> TagResolver
     \<Rightarrow> PropertyValue list \<times> TagResolver" where
  "extractFromFrontmatter rt now frontmatter availableProperties skipSystemProperties tr =
     encodeEntries rt now skipSystemProperties (propertyMap availableProperties) frontmatter tr"

definition buildValidatedProperties ::
  "js_runtime \<Rightarrow> int \<Rightarrow> (string \<times> jsval) list \<Rightarrow> AnyTypeProperty list \<Rightarrow> bool \<Rightarrow> TagResolver
     \<Rightarrow> PropertyValue list \<times> TagResolver" where
  "buildValidatedProperties rt now noteFrontmatter availableProperties skipSystemProperties tr =
     encodeEntries rt now skipSystemProperties (propertyMap availableProperties) noteFrontmatter tr"

section \<open>The vault, as the plugin reads it\<close>

text \<open>
  A thrown JavaScript \<^verbatim>\<open>Error\<close> with its message. A note of the vault is its path, its base
  name (the file name without \<^verbatim>\<open>.md\<close>), the path of its folder, its text, and the
  frontmatter that Obsidian's metadata cache reports for it as the entries of a plain object
  (\<^verbatim>\<open>getFileCache(file)?.frontmatter || {}\<close>).
\<close>

datatype error = Error string

record TFile =
  file_path :: string
  file_basename :: string
  file_parent :: string
  file_content :: string
  file_frontmatter :: "(string \<times> jsval) list"

section \<open>utils/wikilink-resolver.ts\<close>

record ObjectInfo =
  info_objectId :: string
  info_spaceId :: string

text \<open>\<^verbatim>\<open>noteCache\<close> is a JavaScript \<^verbatim>\<open>Map\<close>: its entries keep the order of first insertion, and
  \<^verbatim>\<open>set\<close> on a present key replaces the value in place.\<close>

record WikilinkResolver =
  noteCache :: "(string \<times> ObjectInfo) list"
  cacheExpiry :: int

definition CACHE_DURATION :: int where
  "CACHE_DURATION = 30000"

definition newWikilinkResolver :: WikilinkResolver where
  "newWikilinkResolver = \<lparr> noteCache = [], cacheExpiry = 0 \<rparr>"

fun mapSet :: "'k \<Rightarrow> 'v \<Rightarrow> ('k \<times> 'v) list \<Rightarrow> ('k \<times> 'v) list" where
  "mapSet k v [] = [(k, v)]"
| "mapSet k v ((k', v') # rest) = (if k' = k then (k, v) # rest else (k', v') # mapSet k v rest)"

text \<open>The body of the loop of \<^verbatim>\<open>buildNoteCache\<close> for one file.\<close>

definition cacheNote :: "TFile \<Rightarrow> (string \<times> ObjectInfo) list \<Rightarrow> (string \<times> ObjectInfo) list" where
  "cacheNote file cache =
     (case (getProp (file_frontmatter file) ''id'', getProp (file_frontmatter file) ''space_id'') of
        (JStr oid, JStr sid) \<Rightarrow>
          if oid \<noteq> [] \<and> sid \<noteq> [] \<and> trim oid \<noteq> [] \<and> trim sid \<noteq> [] then
            (let noteName = file_basename file;
                 info = \<lparr> info_objectId = trim oid, info_spaceId = trim sid \<rparr>;
                 cache1 = mapSet noteName info cache
             in case getProp (file_frontmatter file) ''name'' of
                  JStr nameProperty \<Rightarrow>
                    if nameProperty \<noteq> [] \<and> trim nameProperty \<noteq> noteName
                    then mapSet (trim nameProperty) info cache1
                    else cache1
                | _ \<Rightarrow> cache1)
          else cache
      | _ \<Rightarrow> cache)"

definition buildNoteCache :: "TFile list \<Rightarrow> (string \<times> ObjectInfo) list" where
  "buildNoteCache allFiles = foldl (\<lambda>cache file. cacheNote file cache) [] allFiles"

text \<open>
  \<^verbatim>\<open>refreshCacheIfNeeded\<close>. \<open>vaultFiles\<close> is what \<^verbatim>\<open>app.vault.getMarkdownFiles()\<close> does at this
  call: it returns the notes or raises. When it raises, the cache has already been cleared
  and the expiry is left as it was.
\<close>

definition refreshCacheIfNeeded ::
  "int \<Rightarrow> error + TFile list \<Rightarrow> WikilinkResolver \<Rightarrow> error \<times> WikilinkResolver + WikilinkResolver" where
  "refreshCacheIfNeeded now vaultFiles r =
     (if noteCache r = [] \<or> now > cacheExpiry r then
        (case vaultFiles of
           Inl e \<Rightarrow> Inl (e, r\<lparr> noteCache := [] \<rparr>)
         | Inr allFiles \<Rightarrow>
             Inr \<lparr> noteCache = buildNoteCache allFiles, cacheExpiry = now + CACHE_DURATION \<rparr>)
      else Inr r)"

definition findObjectByName :: "(string \<times> ObjectInfo) list \<Rightarrow> string \<Rightarrow> ObjectInfo option" where
  "findObjectByName cache noteName =
     (case map_of cache noteName of
        Some info \<Rightarrow> Some info
      | None \<Rightarrow>
          (case find (\<lambda>(cachedName, info). toLowerCase cachedName = toLowerCase noteName) cache of
             Some (cachedName, info) \<Rightarrow> Some info
           | None \<Rightarrow>
               (case find (\<lambda>(cachedName, info).
                             includesStr cachedName noteName \<or> includesStr noteName cachedName) cache of
                  Some (cachedName, info) \<Rightarrow> Some info
                | None \<Rightarrow> None)))"

text \<open>
  One attempt of \<^verbatim>\<open>/\[\[([^\]|]+)(?:\|([^\]]+))?\]\]/\<close> at the head of a string: the link
  target, the display text when the second group took part, and the length of the match.
  Both groups are greedy runs of a negated class, so the character after a run is outside
  the class (or the end) and giving characters back never helps: the match is the first and
  only candidate.
\<close>

definition matchWikilink :: "string \<Rightarrow> (string \<times> string option \<times> nat) option" where
  "matchWikilink s =
     (if startsWith s ''[['' then
        (let body = drop 2 s;
             linkTarget = takeWhile (\<lambda>c. c \<noteq> CHR '']'' \<and> c \<noteq> CHR ''|'') body;
             r1 = dropWhile (\<lambda>c. c \<noteq> CHR '']'' \<and> c \<noteq> CHR ''|'') body
         in if linkTarget = [] then None
            else if startsWith r1 '']]'' then Some (linkTarget, None, 2 + length linkTarget + 2)
            else if startsWith r1 ''|'' then
              (let displayText = takeWhile (\<lambda>c. c \<noteq> CHR '']'') (drop 1 r1);
                   r2 = dropWhile (\<lambda>c. c \<noteq> CHR '']'') (drop 1 r1)
               in if displayText \<noteq> [] \<and> startsWith r2 '']]''
                  then Some (linkTarget, Some displayText,
                             2 + length linkTarget + 1 + length displayText + 2)
                  else None)
            else None)
      else None)"

text \<open>
  The scan of \<^verbatim>\<open>String.prototype.replace\<close> with a global pattern: from left to right, a match
  becomes a link segment and the scan goes on after it, any other character is kept.
\<close>

datatype segment = Plain char | Link string string "string option"

fun scanLinks :: "string \<Rightarrow> segment list" where
  "scanLinks [] = []"
| "scanLinks (c # cs) =
     (case matchWikilink (c # cs) of
        Some (linkTarget, displayText, n) \<Rightarrow>
          Link (take n (c # cs)) linkTarget displayText # scanLinks (drop (n - 1) cs)
      | None \<Rightarrow> Plain c # scanLinks cs)"

fun segmentText :: "segment \<Rightarrow> string" where
  "segmentText (Plain c) = [c]"
| "segmentText (Link matched linkTarget displayText) = matched"

text \<open>The replacement callback of \<^verbatim>\<open>convertWikilinksToAnyTypeUrls\<close>.\<close>

definition replaceLink ::
  "(string \<times> ObjectInfo) list \<Rightarrow> string \<Rightarrow> string \<Rightarrow> string \<Rightarrow> string option \<Rightarrow> string" where
  "replaceLink cache currentSpaceId matched linkTarget displayText =
     (let displayName = (case displayText of Some d \<Rightarrow> d | None \<Rightarrow> linkTarget);
          cleanTarget = trim linkTarget
      in case findObjectByName cache cleanTarget of
           Some objectInfo \<Rightarrow>
             if info_spaceId objectInfo = currentSpaceId
             then ''['' @ displayName @ ''](anytype://object?objectId='' @ info_objectId objectInfo
                    @ ''&spaceId='' @ info_spaceId objectInfo @ '')''
             else matched
         | None \<Rightarrow> matched)"

fun renderSegment :: "(string \<times> ObjectInfo) list \<Rightarrow> string \<Rightarrow> segment \<Rightarrow> string" where
  "renderSegment cache currentSpaceId (Plain c) = [c]"
| "renderSegment cache currentSpaceId (Link matched linkTarget displayText) =
     replaceLink cache currentSpaceId matched linkTarget displayText"

text \<open>
  \<^verbatim>\<open>convertWikilinksToAnyTypeUrls\<close>. The argument is typed \<^verbatim>\<open>string\<close> but guarded at run time,
  so it is a value here, and so is the result: the guard returns \<^verbatim>\<open>markdown || ''\<close>.
\<close>

definition convertWikilinksToAnyTypeUrls ::
  "int \<Rightarrow> error + TFile list \<Rightarrow> jsval \<Rightarrow> string \<Rightarrow> WikilinkResolver \<Rightarrow> jsval \<times> WikilinkResolver" where
  "convertWikilinksToAnyTypeUrls now vaultFiles markdown currentSpaceId r =
     (case markdown of
        JStr s \<Rightarrow>
          if s = [] then (JStr [], r)
          else
            (case refreshCacheIfNeeded now vaultFiles r of
               Inl (e, r') \<Rightarrow> (JStr s, r')
             | Inr r' \<Rightarrow>
                 (JStr (concat (map (renderSegment (noteCache r') currentSpaceId) (scanLinks s))), r'))
      | _ \<Rightarrow> ((if truthy markdown then markdown else JStr []), r))"

text \<open>What the replacement callback tests: the lookup of the trimmed target finds an entry
  and the entry is of the current space.\<close>

definition resolvesTo :: "(string \<times> ObjectInfo) list \<Rightarrow> string \<Rightarrow> string \<Rightarrow> bool" where
  "resolvesTo cache currentSpaceId linkTarget =
     (case findObjectByName cache (trim linkTarget) of
        Some objectInfo \<Rightarrow> info_spaceId objectInfo = currentSpaceId
      | None \<Rightarrow> False)"

fun linkTargets :: "segment list \<Rightarrow> string list" where
  "linkTargets [] = []"
| "linkTargets (Plain c # segs) = linkTargets segs"
| "linkTargets (Link matched linkTarget displayText # segs) = linkTarget # linkTargets segs"

section \<open>utils/text-processor.ts\<close>

text \<open>The class \<^verbatim>\<open>[\x00-\x08\x0B\x0C\x0E-\x1F\x7F]\<close>: tab, line feed and carriage return are
  not in it.\<close>

definition isControl :: "char \<Rightarrow> bool" where
  "isControl c =
     (let n = (of_char c :: nat)
      in n \<le> 8 \<or> n = 11 \<or> n = 12 \<or> (14 \<le> n \<and> n \<le> 31) \<or> n = 127)"

definition sanitizeForYaml :: "js_runtime \<Rightarrow> jsval \<Rightarrow> nat \<Rightarrow> string option" where
  "sanitizeForYaml rt v maxLength =
     (if v = JNull \<or> v = JUndefined then None
      else Some (take maxLength (filter (\<lambda>c. \<not> isControl c) (String_js rt v))))"

fun isNumber :: "jsval \<Rightarrow> bool" where
  "isNumber (JNum n) = True"
| "isNumber v = False"

text \<open>The \<^verbatim>\<open>typeof value === 'object'\<close> branch of \<^verbatim>\<open>sanitizePropertyValue\<close>, which also takes
  the arrays of more than 50 elements.\<close>

definition sanitizeObject :: "js_runtime \<Rightarrow> jsval \<Rightarrow> jsval option" where
  "sanitizeObject rt v =
     (case jsonStringify rt v of
        None \<Rightarrow> None
      | Some json \<Rightarrow>
          if length json \<le> 500 then map_option JStr (sanitizeForYaml rt (JStr json) 500)
          else None)"

definition sanitizePropertyValue :: "js_runtime \<Rightarrow> jsval \<Rightarrow> jsval option" where
  "sanitizePropertyValue rt v =
     (case v of
        JNull \<Rightarrow> None
      | JUndefined \<Rightarrow> None
      | JStr s \<Rightarrow> map_option JStr (sanitizeForYaml rt v 1000)
      | JNum n \<Rightarrow> Some v
      | JBool b \<Rightarrow> Some v
      | JArr xs \<Rightarrow>
          if length xs \<le> 50 then
            (let filteredArray =
                   List.map_filter (\<lambda>x. map_option JStr (sanitizeForYaml rt x 1000))
                     (filter (\<lambda>x. isString x \<or> isNumber x) xs)
             in if filteredArray \<noteq> [] then Some (JArr filteredArray) else None)
          else sanitizeObject rt v
      | JObj kvs \<Rightarrow> sanitizeObject rt v)"

text \<open>Each maximal run of characters of a class becomes one character (\<^verbatim>\<open>/\s+/g\<close> to a
  space, \<^verbatim>\<open>/-+/g\<close> to a dash).\<close>

fun collapseRuns :: "(char \<Rightarrow> bool) \<Rightarrow> char \<Rightarrow> string \<Rightarrow> string" where
  "collapseRuns p x [] = []"
| "collapseRuns p x [c] = (if p c then [x] else [c])"
| "collapseRuns p x (c # d # cs) =
     (if p c \<and> p d then collapseRuns p x (d # cs)
      else (if p c then x else c) # collapseRuns p x (d # cs))"

definition stripDashes :: "string \<Rightarrow> string" where
  "stripDashes s =
     rev (dropWhile (\<lambda>c. c = CHR ''-'') (rev (dropWhile (\<lambda>c. c = CHR ''-'') s)))"

definition invalidFilenameChars :: string where
  "invalidFilenameChars = [CHR 0x5C, CHR ''/'', CHR '':'', CHR ''*'', CHR ''?'', CHR 0x22,
                           CHR ''<'', CHR ''>'', CHR ''|'']"

definition sanitizeFilename :: "string \<Rightarrow> string" where
  "sanitizeFilename filename =
     (if filename = [] then ''Untitled''
      else
        (let safeName1 = trim (collapseRuns isSpace CHR '' ''
                                 (map (\<lambda>c. if c \<in> set invalidFilenameChars then CHR ''-'' else c)
                                    filename));
             safeName2 = (if safeName1 = [] then ''Untitled'' else safeName1);
             safeName3 = stripDashes (collapseRuns (\<lambda>c. c = CHR ''-'') CHR ''-'' safeName2);
             safeName4 = (if safeName3 = [] then ''Untitled'' else safeName3)
         in if length safeName4 > 100 then take 100 safeName4 else safeName4))"

text \<open>
  One attempt of \<^verbatim>\<open>/\[([^\]]+)\]\(anytype:\/\/object\?objectId=([^)]+)\)/\<close> at the head of a
  string: the link text and the length of the match. As for the local links, the greedy
  runs leave one candidate only.
\<close>

definition matchAnyTypeLink :: "string \<Rightarrow> (string \<times> nat) option" where
  "matchAnyTypeLink s =
     (if startsWith s ''['' then
        (let linkText = takeWhile (\<lambda>c. c \<noteq> CHR '']'') (drop 1 s);
             r1 = dropWhile (\<lambda>c. c \<noteq> CHR '']'') (drop 1 s)
         in if linkText \<noteq> [] \<and> startsWith r1 ''](anytype://object?objectId='' then
              (let r2 = drop (length ''](anytype://object?objectId='') r1;
                   oid = takeWhile (\<lambda>c. c \<noteq> CHR '')'') r2;
                   r3 = dropWhile (\<lambda>c. c \<noteq> CHR '')'') r2
               in if oid \<noteq> [] \<and> startsWith r3 '')''
                  then Some (linkText,
                             1 + length linkText + length ''](anytype://object?objectId=''
                               + length oid + 1)
                  else None)
            else None)
      else None)"

fun convertAnyTypeLinksToWikilinks :: "string \<Rightarrow> string" where
  "convertAnyTypeLinksToWikilinks [] = []"
| "convertAnyTypeLinksToWikilinks (c # cs) =
     (case matchAnyTypeLink (c # cs) of
        Some (linkText, n) \<Rightarrow>
          ''[['' @ trim linkText @ '']]'' @ convertAnyTypeLinksToWikilinks (drop (n - 1) cs)
      | None \<Rightarrow> c # convertAnyTypeLinksToWikilinks cs)"

text \<open>\<^verbatim>\<open>formatYamlLine\<close>: the quoting test, the two escapes, and the line or lines of a key.\<close>

definition needsQuotes :: "string \<Rightarrow> bool" where
  "needsQuotes s =
     (includesStr s '':'' \<or> includesStr s [CHR 0x0A] \<or> includesStr s [CHR 0x22]
      \<or> includesStr s [CHR 0x27] \<or> startsWith s '' '' \<or> endsWith s '' '')"

definition escapeYaml :: "string \<Rightarrow> string" where
  "escapeYaml s =
     concat (map (\<lambda>c. if c = CHR 0x22 then [CHR 0x5C, CHR 0x22]
                       else if c = CHR 0x0A then [CHR 0x5C, CHR ''n'']
                       else [c]) s)"

definition formatYamlLine :: "js_runtime \<Rightarrow> string \<Rightarrow> jsval \<Rightarrow> string" where
  "formatYamlLine rt key v =
     (case v of
        JArr items \<Rightarrow>
          key @ [CHR '':'', CHR 0x0A]
          @ concat (map (\<lambda>item.
                let itemString = String_js rt item
                in if needsQuotes itemString \<or> startsWith itemString ''[[''
                      \<or> endsWith itemString '']]''
                   then ''- '' @ [CHR 0x22] @ escapeYaml itemString @ [CHR 0x22, CHR 0x0A]
                   else ''- '' @ itemString @ [CHR 0x0A]) items)
      | _ \<Rightarrow>
          (let stringValue = String_js rt v
           in if isString v \<and> needsQuotes stringValue
              then key @ '': '' @ [CHR 0x22] @ escapeYaml stringValue @ [CHR 0x22, CHR 0x0A]
              else key @ '': '' @ stringValue @ [CHR 0x0A]))"

section \<open>services/sync-service.ts: the metadata header\<close>

record AnyTypeObject =
  obj_id :: jsval
  obj_name :: string
  obj_type_key :: string
  obj_markdown :: string
  obj_space_id :: string
  obj_properties :: "(string \<times> jsval) list"

text \<open>
  The API service copies \<^verbatim>\<open>id\<close> from the response as it is (\<^verbatim>\<open>id: obj.id\<close>), so it is any
  value, \<^verbatim>\<open>undefined\<close> when the response has none. The other fields are strings when an
  object leaves the API service (\<^verbatim>\<open>name\<close>, \<^verbatim>\<open>type_key\<close> and \<^verbatim>\<open>markdown\<close> get a default,
  \<^verbatim>\<open>space_id\<close> is the configured one); the sync service only tests them for truth and turns
  them into text, and the empty string stands for a missing one. The properties are the
  entries of the \<^verbatim>\<open>properties\<close> object in their enumeration order.

  The header is put together in a plain object, so its keys come out in the order of
  \<^verbatim>\<open>Object.entries\<close>: the keys that are array indices first, in ascending order, then the
  others in the order of their first assignment. An assignment \<^verbatim>\<open>o[key] = v\<close> to a plain
  object under the key \<^verbatim>\<open>__proto__\<close> reaches the setter of \<^verbatim>\<open>Object.prototype\<close> and creates no
  entry; under every other key it replaces the value of the entry or appends a new one.
\<close>

definition natOfDigits :: "string \<Rightarrow> nat" where
  "natOfDigits s = foldl (\<lambda>n c. 10 * n + (of_char c - 48)) 0 s"

definition isArrayIndex :: "string \<Rightarrow> bool" where
  "isArrayIndex k =
     (k \<noteq> [] \<and> list_all isDigit k \<and> (k = ''0'' \<or> hd k \<noteq> CHR ''0'')
      \<and> natOfDigits k < 4294967295)"

definition objectEntries :: "(string \<times> 'a) list \<Rightarrow> (string \<times> 'a) list" where
  "objectEntries kvs =
     sort_key (\<lambda>kv. natOfDigits (fst kv)) (filter (\<lambda>kv. isArrayIndex (fst kv)) kvs)
     @ filter (\<lambda>kv. \<not> isArrayIndex (fst kv)) kvs"

definition objectSet :: "string \<Rightarrow> 'a \<Rightarrow> (string \<times> 'a) list \<Rightarrow> (string \<times> 'a) list" where
  "objectSet key v obj = (if key = ''__proto__'' then obj else mapSet key v obj)"

definition isValidYamlKey :: "string \<Rightarrow> bool" where
  "isValidYamlKey key = (key \<noteq> [] \<and> length key \<le> 100)"

definition isSystemProperty :: "string \<Rightarrow> bool" where
  "isSystemProperty key = (key \<in> set FRONTMATTER_SKIP_PROPERTIES)"

definition coreFields :: "string list" where
  "coreFields = [''id'', ''space_id'', ''type_key'', ''name'']"

text \<open>\<^verbatim>\<open>sanitized || fallback\<close> on the result of \<^verbatim>\<open>sanitizeForYaml\<close>.\<close>

definition orDefault :: "string option \<Rightarrow> string \<Rightarrow> string" where
  "orDefault x d = (case x of None \<Rightarrow> d | Some s \<Rightarrow> if s = [] then d else s)"

text \<open>The object \<^verbatim>\<open>frontmatter\<close> of \<^verbatim>\<open>generateYamlFrontmatter\<close> after the identity fields, the
  loop over the properties and the loop over the preserved properties.\<close>

definition addProperty ::
  "js_runtime \<Rightarrow> bool \<Rightarrow> (string \<times> jsval) list \<Rightarrow> string \<times> jsval \<Rightarrow> (string \<times> jsval) list" where
  "addProperty rt skipSystemProperties frontmatter kv =
     (case kv of (key, v) \<Rightarrow>
        if skipSystemProperties \<and> isSystemProperty key then frontmatter
        else if isValidYamlKey key \<and> v \<noteq> JNull \<and> v \<noteq> JUndefined then
          (case sanitizePropertyValue rt v of
             Some sanitizedValue \<Rightarrow> objectSet key sanitizedValue frontmatter
           | None \<Rightarrow> frontmatter)
        else frontmatter)"

definition addPreserved ::
  "js_runtime \<Rightarrow> AnyTypeObject \<Rightarrow> (string \<times> jsval) list \<Rightarrow> string \<times> jsval \<Rightarrow> (string \<times> jsval) list" where
  "addPreserved rt object frontmatter kv =
     (case kv of (key, v) \<Rightarrow>
        if key \<notin> fst ` set (obj_properties object) \<and> key \<notin> set coreFields \<and> isValidYamlKey key
        then
          (case sanitizePropertyValue rt v of
             Some sanitizedValue \<Rightarrow> objectSet key sanitizedValue frontmatter
           | None \<Rightarrow> frontmatter)
        else frontmatter)"

definition optString :: "string option \<Rightarrow> jsval" where
  "optString x = (case x of None \<Rightarrow> JNull | Some s \<Rightarrow> JStr s)"

definition headerObject ::
  "js_runtime \<Rightarrow> AnyTypeObject \<Rightarrow> bool \<Rightarrow> (string \<times> jsval) list option \<Rightarrow> (string \<times> jsval) list" where
  "headerObject rt object skipSystemProperties preservedProperties =
     (let frontmatter0 =
            [(''id'', optString (sanitizeForYaml rt (obj_id object) 1000)),
             (''space_id'', optString (sanitizeForYaml rt (JStr (obj_space_id object)) 1000)),
             (''type_key'', optString (sanitizeForYaml rt (JStr (obj_type_key object)) 1000)),
             (''name'', JStr (orDefault (sanitizeForYaml rt (JStr (obj_name object)) 1000)
                                ''Untitled''))];
          frontmatter1 = foldl (addProperty rt skipSystemProperties) frontmatter0
                           (obj_properties object)
      in case preservedProperties of
           None \<Rightarrow> frontmatter1
         | Some preserved \<Rightarrow> foldl (addPreserved rt object) frontmatter1 preserved)"

text \<open>The \<^verbatim>\<open>try\<close> block: it raises when a required field is missing and otherwise returns
  the header text.\<close>

definition generateYamlFrontmatter_try ::
  "js_runtime \<Rightarrow> AnyTypeObject \<Rightarrow> bool \<Rightarrow> (string \<times> jsval) list option \<Rightarrow> error + string" where
  "generateYamlFrontmatter_try rt object skipSystemProperties preservedProperties =
     (if \<not> truthy (obj_id object) \<or> obj_space_id object = [] \<or> obj_type_key object = []
      then Inl (Error ''Missing required object fields'')
      else Inr (''---'' @ [CHR 0x0A]
                @ concat (map (\<lambda>(key, v). formatYamlLine rt key v)
                           (filter (\<lambda>(key, v). v \<noteq> JNull \<and> v \<noteq> JUndefined)
                              (objectEntries
                                 (headerObject rt object skipSystemProperties
                                    preservedProperties))))
                @ ''---'' @ [CHR 0x0A, CHR 0x0A]))"

text \<open>The \<^verbatim>\<open>catch\<close> block: the minimal header.\<close>

definition fallbackFrontmatter :: "js_runtime \<Rightarrow> AnyTypeObject \<Rightarrow> string" where
  "fallbackFrontmatter rt object =
     (let safeId = orDefault (sanitizeForYaml rt (obj_id object) 1000) ''unknown'';
          safeSpaceId = orDefault (sanitizeForYaml rt (JStr (obj_space_id object)) 1000) ''unknown'';
          safeTypeKey = orDefault (sanitizeForYaml rt (JStr (obj_type_key object)) 1000) ''page'';
          safeName = orDefault (sanitizeForYaml rt (JStr (obj_name object)) 1000) ''Untitled''
      in ''---'' @ [CHR 0x0A] @ ''id: '' @ safeId @ [CHR 0x0A]
         @ ''space_id: '' @ safeSpaceId @ [CHR 0x0A]
         @ [CHR 0x27] @ ''type_key'' @ [CHR 0x27] @ '': '' @ safeTypeKey @ [CHR 0x0A]
         @ ''name: '' @ safeName @ [CHR 0x0A]
         @ ''---'' @ [CHR 0x0A, CHR 0x0A])"

definition generateYamlFrontmatter ::
  "js_runtime \<Rightarrow> AnyTypeObject \<Rightarrow> bool \<Rightarrow> (string \<times> jsval) list option \<Rightarrow> string" where
  "generateYamlFrontmatter rt object skipSystemProperties preservedProperties =
     (case generateYamlFrontmatter_try rt object skipSystemProperties preservedProperties of
        Inr yamlContent \<Rightarrow> yamlContent
      | Inl e \<Rightarrow> fallbackFrontmatter rt object)"

section \<open>services/sync-service.ts: notes of the vault\<close>

text \<open>
  The vault collaborator: its notes in the order of \<^verbatim>\<open>getMarkdownFiles()\<close>, its folders, and
  the paths on which a read or a write raises. A write replaces the text of a note; the
  frontmatter that the metadata cache holds for it is refreshed by Obsidian afterwards and
  is left as it is here, and a new note starts with none. Notices and log lines are not
  part of the state.
\<close>

record Vault =
  vault_files :: "TFile list"
  vault_folders :: "string list"
  vault_failing :: "string list"

definition getAbstractFileByPath :: "Vault \<Rightarrow> string \<Rightarrow> TFile option" where
  "getAbstractFileByPath vault p = find (\<lambda>f. file_path f = p) (vault_files vault)"

definition vaultRead :: "Vault \<Rightarrow> TFile \<Rightarrow> error + string" where
  "vaultRead vault file =
     (if file_path file \<in> set (vault_failing vault) then Inl (Error ''read failed'')
      else Inr (file_content file))"

definition vaultProcess :: "Vault \<Rightarrow> TFile \<Rightarrow> string \<Rightarrow> error + Vault" where
  "vaultProcess vault file newContent =
     (if file_path file \<in> set (vault_failing vault) then Inl (Error ''write failed'')
      else Inr (vault\<lparr> vault_files :=
                  map (\<lambda>f. if file_path f = file_path file then f\<lparr> file_content := newContent \<rparr>
                            else f) (vault_files vault) \<rparr>))"

definition vaultCreate :: "Vault \<Rightarrow> string \<Rightarrow> string \<Rightarrow> string \<Rightarrow> string \<Rightarrow> error + Vault" where
  "vaultCreate vault fullPath basename parent newContent =
     (if fullPath \<in> set (vault_failing vault) then Inl (Error ''write failed'')
      else if getAbstractFileByPath vault fullPath \<noteq> None then Inl (Error ''File already exists.'')
      else Inr (vault\<lparr> vault_files := vault_files vault
                  @ [\<lparr> file_path = fullPath, file_basename = basename, file_parent = parent,
                      file_content = newContent, file_frontmatter = [] \<rparr>] \<rparr>))"

definition vaultRename :: "Vault \<Rightarrow> TFile \<Rightarrow> string \<Rightarrow> string \<Rightarrow> error + Vault" where
  "vaultRename vault file newPath newBasename =
     (if newPath \<in> set (vault_failing vault) then Inl (Error ''rename failed'')
      else if getAbstractFileByPath vault newPath \<noteq> None
      then Inl (Error ''Destination file already exists!'')
      else Inr (vault\<lparr> vault_files :=
                  map (\<lambda>f. if file_path f = file_path file
                            then f\<lparr> file_path := newPath, file_basename := newBasename \<rparr>
                            else f) (vault_files vault) \<rparr>))"

text \<open>\<^verbatim>\<open>existingFiles.find(f => frontmatter.id === anyTypeId) || null\<close>: the first note whose
  \<^verbatim>\<open>id\<close> header is strictly equal to the given id. A note without an \<^verbatim>\<open>id\<close> header reads
  \<^verbatim>\<open>undefined\<close>, which is what an object without an id is looked up with.\<close>

definition findExistingFileByAnyTypeId :: "Vault \<Rightarrow> jsval \<Rightarrow> TFile option" where
  "findExistingFileByAnyTypeId vault anyTypeId =
     find (\<lambda>f. strictEquals (getProp (file_frontmatter f) ''id'') anyTypeId) (vault_files vault)"

subsection \<open>A free file name\<close>

fun showNat :: "nat \<Rightarrow> string" where
  "showNat n =
     (if n < 10 then [''0123456789'' ! n]
      else showNat (n div 10) @ [''0123456789'' ! (n mod 10)])"

declare showNat.simps [simp del]

definition showInt :: "int \<Rightarrow> string" where
  "showInt i = (if i < 0 then ''-'' @ showNat (nat (- i)) else showNat (nat i))"

text \<open>The path tested for a name: \<^verbatim>\<open>normalizePath\<close> is Obsidian's and is a parameter.\<close>

definition notePath :: "(string \<Rightarrow> string) \<Rightarrow> string \<Rightarrow> string \<Rightarrow> string" where
  "notePath normalizePath importFolder name =
     (if trim importFolder \<noteq> [] then normalizePath (trim importFolder @ ''/'' @ name @ ''.md'')
      else normalizePath (name @ ''.md''))"

record FilenameResult =
  filename :: string
  hasConflict :: bool
  isManualNoteConflict :: bool

definition maxCounter :: nat where
  "maxCounter = 1000"

text \<open>The \<^verbatim>\<open>while (counter <= maxCounter)\<close> loop: the first counter whose path is free.\<close>

function findFreeCounter :: "Vault \<Rightarrow> (string \<Rightarrow> string) \<Rightarrow> string \<Rightarrow> string \<Rightarrow> nat \<Rightarrow> nat option" where
  "findFreeCounter vault normalizePath importFolder safeName counter =
     (if counter \<le> maxCounter then
        (if getAbstractFileByPath vault
              (notePath normalizePath importFolder (safeName @ '' '' @ showNat counter)) = None
         then Some counter
         else findFreeCounter vault normalizePath importFolder safeName (counter + 1))
      else None)"
  by pat_completeness auto
termination
  by (relation "measure (\<lambda>(vault, normalizePath, importFolder, safeName, counter).
                            Suc maxCounter - counter)") auto

declare findFreeCounter.simps [simp del]

text \<open>\<^verbatim>\<open>generateUniqueFilename\<close> reads the vault and the clock (for the time stamp of the
  fallback) and writes nothing.\<close>

definition generateUniqueFilename ::
  "Vault \<Rightarrow> (string \<Rightarrow> string) \<Rightarrow> int \<Rightarrow> string \<Rightarrow> string \<Rightarrow> FilenameResult" where
  "generateUniqueFilename vault normalizePath now baseName0 importFolder =
     (let baseName = (if baseName0 = [] then ''Untitled'' else baseName0);
          safeName = sanitizeFilename baseName
      in case getAbstractFileByPath vault (notePath normalizePath importFolder safeName) of
           None \<Rightarrow> \<lparr> filename = safeName, hasConflict = False, isManualNoteConflict = False \<rparr>
         | Some existingFile \<Rightarrow>
             (let isManualNote = (\<not> truthy (getProp (file_frontmatter existingFile) ''id'')
                                  \<and> \<not> truthy (getProp (file_frontmatter existingFile) ''space_id''))
              in case findFreeCounter vault normalizePath importFolder safeName 1 of
                   Some counter \<Rightarrow>
                     \<lparr> filename = safeName @ '' '' @ showNat counter, hasConflict = True,
                       isManualNoteConflict = isManualNote \<rparr>
                 | None \<Rightarrow>
                     \<lparr> filename = safeName @ '' '' @ showInt now, hasConflict = True,
                       isManualNoteConflict = isManualNote \<rparr>))"

subsection \<open>Import of one object\<close>

text \<open>\<^verbatim>\<open>extractPreservedPropertiesForImport\<close>: the entries of the object it builds.\<close>

definition extractPreservedPropertiesForImport ::
  "TFile option \<Rightarrow> AnyTypeObject \<Rightarrow> (string \<times> jsval) list" where
  "extractPreservedPropertiesForImport existingFile object =
     (case existingFile of
        None \<Rightarrow> []
      | Some file \<Rightarrow>
          objectEntries
            (foldl (\<lambda>preservedCustomProperties (key, v).
                      if key \<notin> set coreFields \<and> key \<notin> fst ` set (obj_properties object)
                         \<and> v \<noteq> JNull \<and> v \<noteq> JUndefined
                      then objectSet key v preservedCustomProperties
                      else preservedCustomProperties)
               [] (file_frontmatter file)))"

text \<open>
  \<^verbatim>\<open>existingContent.match(/^---[\s\S]*?---\n\n?([\s\S]*)$/)\<close> and the choice of the body: after
  a leading \<^verbatim>\<open>---\<close>, the lazy run stops at the first \<^verbatim>\<open>---\<close> that a line feed follows, one more
  line feed is consumed when there is one, and the group is the rest. Without a match the
  body is the whole text.
\<close>

fun afterFirstMarker :: "string \<Rightarrow> string option" where
  "afterFirstMarker [] = None"
| "afterFirstMarker (c # cs) =
     (if startsWith (c # cs) (''---'' @ [CHR 0x0A]) then Some (drop 4 (c # cs))
      else afterFirstMarker cs)"

definition existingBody :: "string \<Rightarrow> string" where
  "existingBody existingContent =
     (if startsWith existingContent ''---'' then
        (case afterFirstMarker (drop 3 existingContent) of
           Some rest \<Rightarrow> (if startsWith rest [CHR 0x0A] then drop 1 rest else rest)
         | None \<Rightarrow> existingContent)
      else existingContent)"

text \<open>The outcome of an operation that may raise after it has written: the error with the
  vault as the raise left it, or the vault.\<close>

type_synonym outcome = "error \<times> Vault + Vault"

definition updateExistingNote ::
  "Vault \<Rightarrow> TFile \<Rightarrow> AnyTypeObject \<Rightarrow> string \<Rightarrow> bool \<Rightarrow> outcome" where
  "updateExistingNote vault existingFile object yamlFrontmatter safeImport =
     (if safeImport then
        (case vaultRead vault existingFile of
           Inl e \<Rightarrow> Inl (e, vault)
         | Inr existingContent \<Rightarrow>
             (let safeNoteContent = yamlFrontmatter @ existingBody existingContent
              in case vaultProcess vault existingFile safeNoteContent of
                   Inl e \<Rightarrow> Inl (e, vault)
                 | Inr vault' \<Rightarrow> Inr vault'))
      else
        (let markdownContent = convertAnyTypeLinksToWikilinks (obj_markdown object);
             noteContent = yamlFrontmatter @ markdownContent
         in case vaultProcess vault existingFile noteContent of
              Inl e \<Rightarrow> Inl (e, vault)
            | Inr vault' \<Rightarrow>
                (let currentName = file_basename existingFile;
                     targetName = sanitizeFilename
                                    (if obj_name object = [] then ''Untitled'' else obj_name object)
                 in if currentName \<noteq> targetName then
                      (let parentPath = file_parent existingFile;
                           newPath = (if parentPath \<noteq> [] then parentPath @ ''/'' @ targetName @ ''.md''
                                      else targetName @ ''.md'')
                       in case getAbstractFileByPath vault' newPath of
                            Some existingTarget \<Rightarrow>
                              if file_path existingTarget \<noteq> file_path existingFile then Inr vault'
                              else (case vaultRename vault' existingFile newPath targetName of
                                      Inl e \<Rightarrow> Inr vault'
                                    | Inr vault'' \<Rightarrow> Inr vault'')
                          | None \<Rightarrow>
                              (case vaultRename vault' existingFile newPath targetName of
                                 Inl e \<Rightarrow> Inr vault'
                               | Inr vault'' \<Rightarrow> Inr vault''))
                    else Inr vault')))"

definition createNewNote ::
  "Vault \<Rightarrow> (string \<Rightarrow> string) \<Rightarrow> int \<Rightarrow> AnyTypeObject \<Rightarrow> string \<Rightarrow> string \<Rightarrow> outcome" where
  "createNewNote vault normalizePath now object yamlFrontmatter importFolder =
     (let markdownContent = convertAnyTypeLinksToWikilinks (obj_markdown object);
          noteContent = yamlFrontmatter @ markdownContent;
          filenameResult = generateUniqueFilename vault normalizePath now
                             (if obj_name object = [] then ''Untitled'' else obj_name object)
                             importFolder;
          fullPath = notePath normalizePath importFolder (filename filenameResult);
          vault1 = (if trim importFolder \<noteq> [] \<and> trim importFolder \<notin> set (vault_folders vault)
                       \<and> getAbstractFileByPath vault (trim importFolder) = None
                    then vault\<lparr> vault_folders := vault_folders vault @ [trim importFolder] \<rparr>
                    else vault)
      in case vaultCreate vault1 fullPath (filename filenameResult) (trim importFolder) noteContent of
           Inl e \<Rightarrow> Inl (e, vault1)
         | Inr vault2 \<Rightarrow> Inr vault2)"

text \<open>\<^verbatim>\<open>createOrUpdateObsidianNote\<close>; its \<^verbatim>\<open>catch\<close> logs and raises again.\<close>

definition createOrUpdateObsidianNote ::
  "js_runtime \<Rightarrow> (string \<Rightarrow> string) \<Rightarrow> int \<Rightarrow> AnyTypeObject \<Rightarrow> bool \<Rightarrow> bool \<Rightarrow> string \<Rightarrow> Vault
     \<Rightarrow> outcome" where
  "createOrUpdateObsidianNote rt normalizePath now object skipSystemProperties safeImport
     importFolder vault =
     (let existingFile = findExistingFileByAnyTypeId vault (obj_id object);
          preservedCustomProperties = extractPreservedPropertiesForImport existingFile object;
          yamlFrontmatter = generateYamlFrontmatter rt object skipSystemProperties
                              (if preservedCustomProperties \<noteq> [] then Some preservedCustomProperties
                               else None)
      in case existingFile of
           Some file \<Rightarrow> updateExistingNote vault file object yamlFrontmatter safeImport
         | None \<Rightarrow> createNewNote vault normalizePath now object yamlFrontmatter importFolder)"

subsection \<open>Bulk import\<close>

record TypeStats =
  type_created :: nat
  type_updated :: nat
  type_failed :: nat

record SyncStats =
  stats_created :: nat
  stats_updated :: nat
  stats_failed :: nat
  stats_byType :: "(string \<times> TypeStats) list"

record SyncResult =
  res_created :: nat
  res_updated :: nat
  res_failed :: nat
  res_skipped :: "nat option"
  res_byType :: "(string \<times> TypeStats) list option"
  res_objectTypes :: "string list option"

definition initializeSyncStatistics :: "string list \<Rightarrow> SyncStats" where
  "initializeSyncStatistics objectTypes =
     \<lparr> stats_created = 0, stats_updated = 0, stats_failed = 0,
       stats_byType =
         foldl (\<lambda>m t. objectSet t \<lparr> type_created = 0, type_updated = 0, type_failed = 0 \<rparr> m)
           [] objectTypes \<rparr>"

text \<open>\<^verbatim>\<open>if (syncStats.byType[objectType]) syncStats.byType[objectType].<field>++\<close>.\<close>

definition bumpType ::
  "(TypeStats \<Rightarrow> TypeStats) \<Rightarrow> string \<Rightarrow> (string \<times> TypeStats) list
     \<Rightarrow> (string \<times> TypeStats) list" where
  "bumpType f objectType m =
     (case map_of m objectType of None \<Rightarrow> m | Some ts \<Rightarrow> mapSet objectType (f ts) m)"

text \<open>
  The callback that \<^verbatim>\<open>createObjectProcessorCallback\<close> returns, as a step on the statistics and
  the vault. The status line it sends every tenth object goes to the user interface and is
  not part of the state.
\<close>

definition createObjectProcessorCallback ::
  "js_runtime \<Rightarrow> (string \<Rightarrow> string) \<Rightarrow> int \<Rightarrow> bool \<Rightarrow> bool \<Rightarrow> string
     \<Rightarrow> SyncStats \<times> Vault \<Rightarrow> AnyTypeObject \<Rightarrow> SyncStats \<times> Vault" where
  "createObjectProcessorCallback rt normalizePath now skipSystemProperties safeImport importFolder
     state object =
     (case state of (syncStats, vault) \<Rightarrow>
        (let objectType = (if obj_type_key object = [] then ''unknown'' else obj_type_key object);
             existingFile = findExistingFileByAnyTypeId vault (obj_id object)
         in case createOrUpdateObsidianNote rt normalizePath now object skipSystemProperties
                   safeImport importFolder vault of
              Inr vault' \<Rightarrow>
                if existingFile \<noteq> None then
                  (syncStats\<lparr> stats_updated := stats_updated syncStats + 1,
                       stats_byType :=
                         bumpType (\<lambda>ts. ts\<lparr> type_updated := type_updated ts + 1 \<rparr>) objectType
                           (stats_byType syncStats) \<rparr>, vault')
                else
                  (syncStats\<lparr> stats_created := stats_created syncStats + 1,
                       stats_byType :=
                         bumpType (\<lambda>ts. ts\<lparr> type_created := type_created ts + 1 \<rparr>) objectType
                           (stats_byType syncStats) \<rparr>, vault')
            | Inl (e, vault') \<Rightarrow>
                (syncStats\<lparr> stats_failed := stats_failed syncStats + 1,
                     stats_byType :=
                       bumpType (\<lambda>ts. ts\<lparr> type_failed := type_failed ts + 1 \<rparr>) objectType
                         (stats_byType syncStats) \<rparr>, vault')))"

definition finalizeSyncResults :: "SyncStats \<Rightarrow> string list \<Rightarrow> SyncResult" where
  "finalizeSyncResults syncStats objectTypes =
     (if stats_created syncStats + stats_updated syncStats + stats_failed syncStats = 0
      then \<lparr> res_created = 0, res_updated = 0, res_failed = 0, res_skipped = None,
             res_byType = Some (stats_byType syncStats), res_objectTypes = Some objectTypes \<rparr>
      else \<lparr> res_created = stats_created syncStats, res_updated = stats_updated syncStats,
             res_failed = stats_failed syncStats, res_skipped = None,
             res_byType = Some (stats_byType syncStats), res_objectTypes = Some objectTypes \<rparr>)"

text \<open>
  \<^verbatim>\<open>getAllObjects\<close> of the API service with a callback, on the objects that its search
  requests return (all pages, in order). An object of the search is its id and the key of
  its type, if it has one. For an object of a requested type, \<^verbatim>\<open>getObjectWithMarkdown\<close>
  fetches the full object and returns \<^verbatim>\<open>null\<close> on every failure (its whole body is in a
  \<^verbatim>\<open>try\<close>); then \<^verbatim>\<open>createBasicAnyTypeObject\<close> builds the object from the search result, and it
  can raise. Both talk to the transport collaborator and are the parameters \<open>fetchFull\<close>
  and \<open>createBasic\<close>. The \<^verbatim>\<open>try\<close> of the loop encloses the fetch and the callback; its
  \<^verbatim>\<open>catch\<close> logs and goes on to the next object.
\<close>

record SearchObject =
  so_id :: string
  so_type_key :: "string option"

definition requestedType :: "string list \<Rightarrow> SearchObject \<Rightarrow> bool" where
  "requestedType objectTypes obj =
     (case so_type_key obj of None \<Rightarrow> False | Some k \<Rightarrow> k \<in> set objectTypes)"

definition fetchObject ::
  "(SearchObject \<Rightarrow> AnyTypeObject option) \<Rightarrow> (SearchObject \<Rightarrow> error + AnyTypeObject)
     \<Rightarrow> SearchObject \<Rightarrow> error + AnyTypeObject" where
  "fetchObject fetchFull createBasic obj =
     (case fetchFull obj of
        Some fullObject \<Rightarrow> Inr fullObject
      | None \<Rightarrow> createBasic obj)"

fun getAllObjects ::
  "(SearchObject \<Rightarrow> AnyTypeObject option) \<Rightarrow> (SearchObject \<Rightarrow> error + AnyTypeObject)
     \<Rightarrow> string list \<Rightarrow> ('s \<Rightarrow> AnyTypeObject \<Rightarrow> 's) \<Rightarrow> SearchObject list \<Rightarrow> 's \<Rightarrow> 's" where
  "getAllObjects fetchFull createBasic objectTypes onObjectProcessed [] state = state"
| "getAllObjects fetchFull createBasic objectTypes onObjectProcessed (obj # rest) state =
     (if requestedType objectTypes obj then
        (case fetchObject fetchFull createBasic obj of
           Inr processedObject \<Rightarrow>
             getAllObjects fetchFull createBasic objectTypes onObjectProcessed rest
               (onObjectProcessed state processedObject)
         | Inl e \<Rightarrow>
             getAllObjects fetchFull createBasic objectTypes onObjectProcessed rest state)
      else getAllObjects fetchFull createBasic objectTypes onObjectProcessed rest state)"

text \<open>\<^verbatim>\<open>syncFromAnyType\<close>: the statistics, the callback, the stream of objects, the result.\<close>

definition syncFromAnyType ::
  "js_runtime \<Rightarrow> (string \<Rightarrow> string) \<Rightarrow> int
     \<Rightarrow> (SearchObject \<Rightarrow> AnyTypeObject option) \<Rightarrow> (SearchObject \<Rightarrow> error + AnyTypeObject)
     \<Rightarrow> bool \<Rightarrow> bool \<Rightarrow> string \<Rightarrow> string list \<Rightarrow> SearchObject list \<Rightarrow> Vault
     \<Rightarrow> SyncResult \<times> Vault" where
  "syncFromAnyType rt normalizePath now fetchFull createBasic skipSystemProperties safeImport
     importFolder objectTypes searchObjects vault =
     (case getAllObjects fetchFull createBasic objectTypes
             (createObjectProcessorCallback rt normalizePath now skipSystemProperties safeImport
                importFolder)
             searchObjects (initializeSyncStatistics objectTypes, vault) of
        (syncStats, vault') \<Rightarrow> (finalizeSyncResults syncStats objectTypes, vault'))"

subsection \<open>Bulk sync\<close>

text \<open>\<^verbatim>\<open>Validation.isValidAnyTypeId\<close>, \<^verbatim>\<open>isValidSpaceId\<close> and \<^verbatim>\<open>isValidApiKey\<close>.\<close>

definition isValidAnyTypeId :: "jsval \<Rightarrow> bool" where
  "isValidAnyTypeId v =
     (case v of
        JStr s \<Rightarrow> s \<noteq> [] \<and> list_all (\<lambda>c. c \<in> set
          ''abcdefghijklmnopqrstuvwxyzABCDEFGHIJKLMNOPQRSTUVWXYZ0123456789_-'') s
      | _ \<Rightarrow> False)"

definition isValidSpaceId :: "string \<Rightarrow> bool" where
  "isValidSpaceId spaceId = (spaceId \<noteq> [] \<and> trim spaceId \<noteq> [])"

definition isValidApiKey :: "string \<Rightarrow> bool" where
  "isValidApiKey apiKey = (apiKey \<noteq> [] \<and> length (trim apiKey) > 10)"

definition getNotesWithAnyTypeMetadata :: "TFile list \<Rightarrow> TFile list" where
  "getNotesWithAnyTypeMetadata allFiles =
     filter (\<lambda>file.
        let noteId = getProp (file_frontmatter file) ''id'';
            noteSpaceId = getProp (file_frontmatter file) ''space_id''
        in truthy noteId \<and> isValidAnyTypeId noteId \<and> truthy noteSpaceId
           \<and> (case noteSpaceId of JStr s \<Rightarrow> trim s \<noteq> [] | _ \<Rightarrow> False)) allFiles"

text \<open>
  The loop of \<^verbatim>\<open>syncAllNotes\<close>. \<^verbatim>\<open>syncNoteToAnyType\<close> awaits three calls of the transport
  collaborator and then rewrites the note; it is the parameter \<open>syncNote\<close>, a step on the
  state \<open>'w\<close> of the vault and the remote space that either completes or raises.
\<close>

definition syncStep ::
  "(TFile \<Rightarrow> 'w \<Rightarrow> error \<times> 'w + 'w) \<Rightarrow> nat \<times> nat \<times> 'w \<Rightarrow> TFile \<Rightarrow> nat \<times> nat \<times> 'w" where
  "syncStep syncNote state file =
     (case state of (synced, failedCount, w) \<Rightarrow>
        (case syncNote file w of
           Inr w' \<Rightarrow> (synced + 1, failedCount, w')
         | Inl (e, w') \<Rightarrow> (synced, failedCount + 1, w')))"

definition syncAllNotes ::
  "(TFile \<Rightarrow> 'w \<Rightarrow> error \<times> 'w + 'w) \<Rightarrow> string \<Rightarrow> string \<Rightarrow> TFile list \<Rightarrow> 'w
     \<Rightarrow> error + SyncResult \<times> 'w" where
  "syncAllNotes syncNote spaceId apiKey allFiles w =
     (if \<not> isValidSpaceId spaceId then Inl (Error ''Invalid space ID provided'')
      else if \<not> isValidApiKey apiKey then Inl (Error ''Invalid API key provided'')
      else
        (let eligibleFiles = getNotesWithAnyTypeMetadata allFiles;
             totalFiles = length allFiles
         in if eligibleFiles = [] then
              Inr (\<lparr> res_created = 0, res_updated = 0, res_failed = 0,
                     res_skipped = Some totalFiles, res_byType = None,
                     res_objectTypes = None \<rparr>, w)
            else
              (case foldl (syncStep syncNote) (0, 0, w) eligibleFiles of
                 (synced, failedCount, w') \<Rightarrow>
                   Inr (\<lparr> res_created = 0, res_updated = synced, res_failed = failedCount,
                          res_skipped = Some (totalFiles - length eligibleFiles),
                          res_byType = None, res_objectTypes = None \<rparr>, w'))))"

text \<open>
  What became of each item in a run, with the state threaded as the loops thread it. In an
  import an object of the search is not of a requested type, or its fetch raised, or the
  write of its note raised, or its note was written; in a sync the per-file step raised or
  did not.
\<close>

datatype importOutcome = NotRequested | FetchRaised | WriteRaised | Written

fun importOutcomes ::
  "js_runtime \<Rightarrow> (string \<Rightarrow> string) \<Rightarrow> int
     \<Rightarrow> (SearchObject \<Rightarrow> AnyTypeObject option) \<Rightarrow> (SearchObject \<Rightarrow> error + AnyTypeObject)
     \<Rightarrow> bool \<Rightarrow> bool \<Rightarrow> string \<Rightarrow> string list \<Rightarrow> SearchObject list \<Rightarrow> Vault
     \<Rightarrow> importOutcome list" where
  "importOutcomes rt normalizePath now fetchFull createBasic skipSystemProperties safeImport
     importFolder objectTypes [] vault = []"
| "importOutcomes rt normalizePath now fetchFull createBasic skipSystemProperties safeImport
     importFolder objectTypes (obj # rest) vault =
     (if requestedType objectTypes obj then
        (case fetchObject fetchFull createBasic obj of
           Inl e \<Rightarrow>
             FetchRaised # importOutcomes rt normalizePath now fetchFull createBasic
                             skipSystemProperties safeImport importFolder objectTypes rest vault
         | Inr object \<Rightarrow>
             (case createOrUpdateObsidianNote rt normalizePath now object skipSystemProperties
                     safeImport importFolder vault of
                Inr vault' \<Rightarrow>
                  Written # importOutcomes rt normalizePath now fetchFull createBasic
                              skipSystemProperties safeImport importFolder objectTypes rest vault'
              | Inl (e, vault') \<Rightarrow>
                  WriteRaised # importOutcomes rt normalizePath now fetchFull createBasic
                                  skipSystemProperties safeImport importFolder objectTypes rest
                                  vault'))
      else NotRequested # importOutcomes rt normalizePath now fetchFull createBasic
                            skipSystemProperties safeImport importFolder objectTypes rest vault)"

text \<open>A runtime for worked runs that never reach a service of the runtime: each service
  answers with its failure value.\<close>

definition noRuntime :: js_runtime where
  "noRuntime = \<lparr> numToString = (\<lambda>n. []), toNumber = (\<lambda>v. NaN), parseDate = (\<lambda>s. None),
                 timestampToISO = (\<lambda>n. None), jsonStringify = (\<lambda>v. None) \<rparr>"

fun syncRaises :: "(TFile \<Rightarrow> 'w \<Rightarrow> error \<times> 'w + 'w) \<Rightarrow> 'w \<Rightarrow> TFile list \<Rightarrow> bool list" where
  "syncRaises syncNote w [] = []"
| "syncRaises syncNote w (file # rest) =
     (case syncNote file w of
        Inr w' \<Rightarrow> False # syncRaises syncNote w' rest
      | Inl (e, w') \<Rightarrow> True # syncRaises syncNote w' rest)"

section \<open>Tag cache expiry\<close>

text \<open>
  C6 (as amended). Let the entry of \<open>propertyId\<close> hold \<open>tags\<close> with the time stamp
  \<open>timestamp\<close> of the last \<^verbatim>\<open>setTagsForProperty\<close> call. While the age \<open>now - timestamp\<close> is
  at most the TTL of 5 minutes (and the stamp is not the clock reading 0, which the code
  reads as a missing stamp), \<^verbatim>\<open>getTagsForProperty\<close> returns the cached list and keeps the
  entry. Once the age exceeds the TTL, \<^verbatim>\<open>getTagsForProperty\<close> removes the entry from both
  maps and returns \<^verbatim>\<open>null\<close>, \<^verbatim>\<open>areTagsCached\<close> is false and \<^verbatim>\<open>resolveTagNameToId\<close> returns
  \<^verbatim>\<open>null\<close>.
\<close>

theorem tag_cache_ttl:
  assumes "cacheTimestamps tr propertyId = Some timestamp"
      and "tagCache tr propertyId = Some tags"
  shows "(timestamp \<noteq> 0 \<and> now - timestamp \<le> CACHE_TTL \<longrightarrow>
           getTagsForProperty now propertyId tr = (Some tags, tr))
       \<and> (now - timestamp > CACHE_TTL \<longrightarrow>
           fst (getTagsForProperty now propertyId tr) = None
         \<and> tagCache (snd (getTagsForProperty now propertyId tr)) propertyId = None
         \<and> cacheTimestamps (snd (getTagsForProperty now propertyId tr)) propertyId = None
         \<and> \<not> areTagsCached now propertyId tr
         \<and> fst (resolveTagNameToId now propertyId tagName tr) = None)"
  using assms
  by (auto simp add: getTagsForProperty_def areTagsCached_def resolveTagNameToId_def
      clearPropertyCache_def)

text \<open>A run of the theorem: tags set at clock reading 1000, read one minute and six
  minutes later.\<close>

theorem tag_cache_ttl_witness:
  "getTagsForProperty 61000 ''prop1''
     (setTagsForProperty 1000 ''prop1'' [\<lparr>tag_id = ''t1'', tag_name = ''Urgent'', tag_color = None\<rparr>]
        newTagResolver)
   = (Some [\<lparr>tag_id = ''t1'', tag_name = ''Urgent'', tag_color = None\<rparr>],
      setTagsForProperty 1000 ''prop1'' [\<lparr>tag_id = ''t1'', tag_name = ''Urgent'', tag_color = None\<rparr>]
        newTagResolver)
   \<and> fst (getTagsForProperty 361000 ''prop1''
     (setTagsForProperty 1000 ''prop1'' [\<lparr>tag_id = ''t1'', tag_name = ''Urgent'', tag_color = None\<rparr>]
        newTagResolver)) = None
   \<and> \<not> areTagsCached 361000 ''prop1''
     (setTagsForProperty 1000 ''prop1'' [\<lparr>tag_id = ''t1'', tag_name = ''Urgent'', tag_color = None\<rparr>]
        newTagResolver)
   \<and> fst (resolveTagNameToId 361000 ''prop1'' ''urgent''
     (setTagsForProperty 1000 ''prop1'' [\<lparr>tag_id = ''t1'', tag_name = ''Urgent'', tag_color = None\<rparr>]
        newTagResolver)) = None"
proof -
  let ?tags = "[\<lparr>tag_id = ''t1'', tag_name = ''Urgent'', tag_color = None\<rparr>]"
  let ?tr = "setTagsForProperty 1000 ''prop1'' ?tags newTagResolver"
  have ts: "cacheTimestamps ?tr ''prop1'' = Some 1000"
    by (simp add: setTagsForProperty_def)
  have tc: "tagCache ?tr ''prop1'' = Some ?tags"
    by (simp add: setTagsForProperty_def)
  have fresh: "(1000::int) \<noteq> 0 \<and> 61000 - 1000 \<le> CACHE_TTL"
    by (simp add: CACHE_TTL_def)
  have stale: "361000 - 1000 > CACHE_TTL"
    by (simp add: CACHE_TTL_def)
  from tag_cache_ttl [OF ts tc, of 61000] fresh
  have a: "getTagsForProperty 61000 ''prop1'' ?tr = (Some ?tags, ?tr)" by blast
  from tag_cache_ttl [OF ts tc, of 361000 "''urgent''"] stale
  have b: "fst (getTagsForProperty 361000 ''prop1'' ?tr) = None
         \<and> \<not> areTagsCached 361000 ''prop1'' ?tr
         \<and> fst (resolveTagNameToId 361000 ''prop1'' ''urgent'' ?tr) = None" by blast
  from a b show ?thesis by blast
qed

text \<open>
  The claim as stated puts the boundary at the TTL itself: an entry whose age is exactly
  5 minutes has seen the TTL elapse, yet the code still serves it and reports it cached.
\<close>

theorem tag_cache_boundary_counterexample:
  "fst (getTagsForProperty (1000 + CACHE_TTL) ''prop1''
     (setTagsForProperty 1000 ''prop1'' [\<lparr>tag_id = ''t1'', tag_name = ''Urgent'', tag_color = None\<rparr>]
        newTagResolver))
   = Some [\<lparr>tag_id = ''t1'', tag_name = ''Urgent'', tag_color = None\<rparr>]
   \<and> areTagsCached (1000 + CACHE_TTL) ''prop1''
     (setTagsForProperty 1000 ''prop1'' [\<lparr>tag_id = ''t1'', tag_name = ''Urgent'', tag_color = None\<rparr>]
        newTagResolver)
   \<and> fst (resolveTagNameToId (1000 + CACHE_TTL) ''prop1'' ''urgent''
     (setTagsForProperty 1000 ''prop1'' [\<lparr>tag_id = ''t1'', tag_name = ''Urgent'', tag_color = None\<rparr>]
        newTagResolver)) = Some ''t1''"
  by (simp add: getTagsForProperty_def setTagsForProperty_def areTagsCached_def
      resolveTagNameToId_def newTagResolver_def CACHE_TTL_def toLowerCase_def toLowerChar_def)

section \<open>Encoding the local metadata map\<close>

lemmas infer_simps = inferPropertyFormat_def isTagProperty_def tagKeywords_def toLowerCase_def
  toLowerChar_def isoDatePrefix_def isoDateTPrefix_def datePat_def isDigit_def phoneLike_def
  isSpace_def

lemmas encode_simps = extractFromFrontmatter_def buildValidatedProperties_def propertyMap_def
  SYSTEM_PROPERTIES_def READ_ONLY_PROPERTIES_def ALLOWED_PROPERTY_FORMATS_def formatForAPI_def
  processTagProperty_def cachedPropertyId_def stringList_def trim_def
  isoDateTimePrefix_def dateTimePat_def isoDateExact_def

lemma processTagProperty_key:
  "processTagProperty rt now key v format propertyId tr = (Some pv, tr') \<Longrightarrow> pv_key pv = key"
  by (auto simp add: processTagProperty_def Let_def split: if_splits option.splits prod.splits)

lemma formatForAPI_key:
  "formatForAPI rt now key v format propertyId tr = (Some pv, tr') \<Longrightarrow> pv_key pv = key"
  unfolding formatForAPI_def Let_def
  by (auto split: if_splits option.splits jsnum.splits jsval.splits dest: processTagProperty_key)

text \<open>What the loop lets through: every emitted value carries the key of an entry that
  passed the filters of the loop.\<close>

lemma encodeEntries_keys:
  "encodeEntries rt now skip pm entries tr = (ps, tr') \<Longrightarrow> pv \<in> set ps \<Longrightarrow>
     pv_key pv \<notin> set READ_ONLY_PROPERTIES
   \<and> pv_key pv \<in> fst ` set entries
   \<and> (skip \<longrightarrow> pv_key pv \<notin> set SYSTEM_PROPERTIES)
   \<and> (\<forall>d. pm (pv_key pv) = Some d \<longrightarrow> prop_format d \<in> set ALLOWED_PROPERTY_FORMATS)"
proof (induction entries arbitrary: tr ps)
  case Nil
  then show ?case by simp
next
  case (Cons e entries)
  obtain key v where e: "e = (key, v)" by (cases e)
  show ?case using Cons.prems Cons.IH unfolding e
    by (fastforce split: if_splits option.splits prod.splits dest!: formatForAPI_key)
qed

text \<open>
  C1 (as amended). Format inference on keys absent from the remote schema:
  \<^verbatim>\<open>{tags: ["a","b"]}\<close> infers \<^verbatim>\<open>multi_select\<close>; \<^verbatim>\<open>{due: "2024-01-01"}\<close> infers \<^verbatim>\<open>date\<close>;
  \<^verbatim>\<open>{homepage: "example.com"}\<close> infers \<^verbatim>\<open>text\<close> and is encoded as the text value
  \<^verbatim>\<open>example.com\<close>, because \<^verbatim>\<open>url\<close> is inferred only for a value that starts with \<^verbatim>\<open>http://\<close> or
  \<^verbatim>\<open>https://\<close>: \<^verbatim>\<open>{homepage: "https://example.com"}\<close> infers \<^verbatim>\<open>url\<close> and is encoded as
  \<^verbatim>\<open>https://example.com\<close>, and the \<^verbatim>\<open>url\<close> branch of \<^verbatim>\<open>formatForAPI\<close> is where \<^verbatim>\<open>example.com\<close>
  would get its \<^verbatim>\<open>https://\<close>; \<^verbatim>\<open>{note: 42}\<close> infers \<^verbatim>\<open>number\<close>.
\<close>

theorem format_inference_examples:
  "inferPropertyFormat ''tags'' (JArr [JStr ''a'', JStr ''b'']) = Some ''multi_select''
   \<and> inferPropertyFormat ''due'' (JStr ''2024-01-01'') = Some ''date''
   \<and> inferPropertyFormat ''homepage'' (JStr ''example.com'') = Some ''text''
   \<and> fst (extractFromFrontmatter rt now [(''homepage'', JStr ''example.com'')] [] skip tr)
       = [\<lparr>pv_key = ''homepage'', pv_payload = PText ''example.com''\<rparr>]
   \<and> inferPropertyFormat ''homepage'' (JStr ''https://example.com'') = Some ''url''
   \<and> fst (extractFromFrontmatter rt now [(''homepage'', JStr ''https://example.com'')] [] skip tr)
       = [\<lparr>pv_key = ''homepage'', pv_payload = PUrl ''https://example.com''\<rparr>]
   \<and> fst (formatForAPI rt now ''homepage'' (JStr ''example.com'') ''url'' None tr)
       = Some \<lparr>pv_key = ''homepage'', pv_payload = PUrl ''https://example.com''\<rparr>
   \<and> inferPropertyFormat ''note'' (JNum (Num 42)) = Some ''number''"
  by (simp add: infer_simps encode_simps)

text \<open>The claim as stated has \<^verbatim>\<open>{homepage: "example.com"}\<close> infer \<^verbatim>\<open>url\<close>; the code infers
  \<^verbatim>\<open>text\<close>.\<close>

theorem homepage_inference_counterexample:
  "inferPropertyFormat ''homepage'' (JStr ''example.com'') \<noteq> Some ''url''"
  by (simp add: infer_simps)

text \<open>
  C4. For every frontmatter map, every list of Property Definitions and both encode
  operations, no Property Value of the returned list carries a key of the Read-Only
  Property set.
\<close>

theorem encode_never_emits_read_only:
  "(\<forall>pv \<in> set (fst (extractFromFrontmatter rt now frontmatter availableProperties skip tr)).
      pv_key pv \<notin> set READ_ONLY_PROPERTIES)
   \<and> (\<forall>pv \<in> set (fst (buildValidatedProperties rt now frontmatter availableProperties skip tr)).
      pv_key pv \<notin> set READ_ONLY_PROPERTIES)"
  unfolding extractFromFrontmatter_def buildValidatedProperties_def
  by (metis encodeEntries_keys prod.collapse)

text \<open>A run: \<^verbatim>\<open>creator\<close> is read-only and is dropped, \<^verbatim>\<open>title\<close> is emitted.\<close>

theorem encode_never_emits_read_only_witness:
  "\<forall>rt. fst (extractFromFrontmatter rt 0 [(''creator'', JStr ''me''), (''title'', JStr ''Hello'')] []
            True newTagResolver)
        = [\<lparr>pv_key = ''title'', pv_payload = PText ''Hello''\<rparr>]
      \<and> ''creator'' \<in> set READ_ONLY_PROPERTIES
      \<and> ''title'' \<notin> set READ_ONLY_PROPERTIES"
proof (intro allI)
  fix rt
  let ?out = "fst (extractFromFrontmatter rt 0
                [(''creator'', JStr ''me''), (''title'', JStr ''Hello'')] [] True newTagResolver)"
  have out: "?out = [\<lparr>pv_key = ''title'', pv_payload = PText ''Hello''\<rparr>]"
    by (simp add: infer_simps encode_simps)
  have ro: "''creator'' \<in> set READ_ONLY_PROPERTIES"
    by (simp add: READ_ONLY_PROPERTIES_def)
  from encode_never_emits_read_only
    [of rt 0 "[(''creator'', JStr ''me''), (''title'', JStr ''Hello'')]" "[]" True newTagResolver]
  have "\<forall>pv \<in> set ?out. pv_key pv \<notin> set READ_ONLY_PROPERTIES" by blast
  with out have "''title'' \<notin> set READ_ONLY_PROPERTIES" by simp
  with out ro show "?out = [\<lparr>pv_key = ''title'', pv_payload = PText ''Hello''\<rparr>]
      \<and> ''creator'' \<in> set READ_ONLY_PROPERTIES
      \<and> ''title'' \<notin> set READ_ONLY_PROPERTIES" by blast
qed

text \<open>With no property id to resolve against (the inference branch passes none),
  \<^verbatim>\<open>formatForAPI\<close> neither reads nor changes the tag resolver.\<close>

lemma processTagProperty_unresolved:
  "processTagProperty rt now key v format None tr
     = (fst (processTagProperty rt now key v format None tr0), tr)"
  by (simp add: processTagProperty_def cachedPropertyId_def Let_def split: option.splits)

lemma formatForAPI_unresolved:
  "formatForAPI rt now key v format None tr
     = (fst (formatForAPI rt now key v format None tr0), tr)"
proof -
  have c1: "format = ''text'' \<Longrightarrow> ?thesis"
    by (simp add: formatForAPI_def)
  have c2: "format = ''number'' \<Longrightarrow> ?thesis"
    by (simp add: formatForAPI_def split: jsval.splits jsnum.splits)
  have c3: "format = ''checkbox'' \<Longrightarrow> ?thesis"
    by (simp add: formatForAPI_def Let_def)
  have c4: "format = ''date'' \<Longrightarrow> ?thesis"
    by (simp add: formatForAPI_def split: jsval.splits option.splits)
  have c5: "format = ''url'' \<Longrightarrow> ?thesis"
    by (simp add: formatForAPI_def Let_def)
  have c6: "format = ''email'' \<Longrightarrow> ?thesis"
    by (simp add: formatForAPI_def Let_def)
  have c7: "format = ''phone'' \<Longrightarrow> ?thesis"
    by (simp add: formatForAPI_def)
  have c8: "format = ''select'' \<Longrightarrow> ?thesis"
    using processTagProperty_unresolved [of rt now key v "''select''" tr tr0]
    by (simp add: formatForAPI_def)
  have c9: "format = ''multi_select'' \<Longrightarrow> ?thesis"
    using processTagProperty_unresolved [of rt now key v "''multi_select''" tr tr0]
    by (simp add: formatForAPI_def)
  have c10: "format = ''files'' \<Longrightarrow> ?thesis"
    by (simp add: formatForAPI_def split: option.splits)
  have c11: "format = ''objects'' \<Longrightarrow> ?thesis"
    by (simp add: formatForAPI_def split: option.splits)
  have c12: "format \<noteq> ''text'' \<Longrightarrow> format \<noteq> ''number'' \<Longrightarrow> format \<noteq> ''checkbox''
      \<Longrightarrow> format \<noteq> ''date'' \<Longrightarrow> format \<noteq> ''url'' \<Longrightarrow> format \<noteq> ''email''
      \<Longrightarrow> format \<noteq> ''phone'' \<Longrightarrow> format \<noteq> ''select'' \<Longrightarrow> format \<noteq> ''multi_select''
      \<Longrightarrow> format \<noteq> ''files'' \<Longrightarrow> format \<noteq> ''objects'' \<Longrightarrow> ?thesis"
    by (simp add: formatForAPI_def)
  from c1 c2 c3 c4 c5 c6 c7 c8 c9 c10 c11 c12 show ?thesis by blast
qed

text \<open>An entry whose key has no definition and passes the two filters of the loop is
  emitted as \<^verbatim>\<open>formatForAPI\<close> encodes it under the inferred format.\<close>

lemma encodeEntries_inferred:
  assumes "key \<notin> set READ_ONLY_PROPERTIES"
      and "\<not> (skip \<and> key \<in> set SYSTEM_PROPERTIES)"
      and "pm key = None"
      and "inferPropertyFormat key v = Some inferredFormat"
      and "fst (formatForAPI rt now key v inferredFormat None tr0) = Some pv"
  shows "(key, v) \<in> set entries \<Longrightarrow> encodeEntries rt now skip pm entries tr = (ps, tr')
           \<Longrightarrow> pv \<in> set ps"
proof (induction entries arbitrary: tr ps tr')
  case Nil
  then show ?case by simp
next
  case (Cons e entries)
  obtain k w where e: "e = (k, w)" by (cases e)
  show ?case
  proof (cases "(k, w) = (key, v)")
    case True
    have fmt: "formatForAPI rt now key v inferredFormat None tr = (Some pv, tr)"
      using formatForAPI_unresolved [of rt now key v inferredFormat tr tr0] assms(5) by simp
    show ?thesis
      using Cons.prems(2) True assms(1-4) fmt unfolding e
      by (auto split: prod.splits)
  next
    case False
    with Cons.prems(1) e have mem: "(key, v) \<in> set entries" by auto
    note ih = Cons.IH [OF mem]
    show ?thesis
      using Cons.prems(2) ih unfolding e
      by (fastforce split: if_splits option.splits prod.splits)
  qed
qed

text \<open>An entry whose key has a definition of a format outside the allowed ones is skipped.\<close>

lemma encodeEntries_declared:
  assumes "pm key = Some d" and "prop_format d \<notin> set ALLOWED_PROPERTY_FORMATS"
  shows "encodeEntries rt now skip pm [(key, v)] tr = ([], tr)"
  using assms by simp

lemma inferPropertyFormat_range:
  "inferPropertyFormat key v = Some inferredFormat \<Longrightarrow>
     inferredFormat \<in> {''multi_select'', ''select'', ''date'', ''url'', ''email'', ''phone'',
                         ''text'', ''number'', ''checkbox''}"
  unfolding inferPropertyFormat_def
  by (cases v) (simp_all split: if_splits)

text \<open>
  C10 (as amended). The Allowed Format set is exactly \<^verbatim>\<open>text\<close> and \<^verbatim>\<open>number\<close>. For both encode
  operations and every frontmatter map, list of Property Definitions, setting and resolver:
  a value is emitted for a key with a Property Definition only when the definition
  declares \<^verbatim>\<open>text\<close> or \<^verbatim>\<open>number\<close>, so a key whose definition declares any other format is
  skipped; and an entry whose key has no definition, is not read-only and is not a skipped
  system key is emitted under the format that inference gives for it, whenever
  \<^verbatim>\<open>formatForAPI\<close> encodes the value under that format. Inference gives \<^verbatim>\<open>multi_select\<close>,
  \<^verbatim>\<open>select\<close>, \<^verbatim>\<open>date\<close>, \<^verbatim>\<open>url\<close>, \<^verbatim>\<open>email\<close>, \<^verbatim>\<open>phone\<close>, \<^verbatim>\<open>text\<close>, \<^verbatim>\<open>number\<close> or \<^verbatim>\<open>checkbox\<close>,
  and never \<^verbatim>\<open>files\<close> or \<^verbatim>\<open>objects\<close>. For each of the seven richer formats that inference
  can give there is a key and value that is skipped when the schema declares the key with
  that format and encoded under that format when the key is absent from the schema:
  \<^verbatim>\<open>{status: "open"}\<close>, \<^verbatim>\<open>{tags: ["a","b"]}\<close>, \<^verbatim>\<open>{due: "2024-01-01"}\<close>, \<^verbatim>\<open>{done: true}\<close>,
  \<^verbatim>\<open>{homepage: "https://example.com"}\<close>, \<^verbatim>\<open>{contact: "ann@example.com"}\<close> and
  \<^verbatim>\<open>{phone: "+1 555 0100"}\<close>.
\<close>

theorem allowed_formats_gate:
  "ALLOWED_PROPERTY_FORMATS = [''text'', ''number'']
   \<and> (\<forall>encode \<in> {extractFromFrontmatter, buildValidatedProperties}.
        (\<forall>pv \<in> set (fst (encode rt now frontmatter availableProperties skip tr)).
           \<forall>d. propertyMap availableProperties (pv_key pv) = Some d
             \<longrightarrow> prop_format d = ''text'' \<or> prop_format d = ''number'')
      \<and> (\<forall>key v inferredFormat pv.
             (key, v) \<in> set frontmatter
             \<and> key \<notin> set READ_ONLY_PROPERTIES
             \<and> \<not> (skip \<and> key \<in> set SYSTEM_PROPERTIES)
             \<and> propertyMap availableProperties key = None
             \<and> inferPropertyFormat key v = Some inferredFormat
             \<and> fst (formatForAPI rt now key v inferredFormat None tr) = Some pv
             \<longrightarrow> pv \<in> set (fst (encode rt now frontmatter availableProperties skip tr)))
      \<and> (\<forall>(key, v, declared, payload) \<in> set
             [(''status'', JStr ''open'', ''select'', PSelect ''open''),
              (''tags'', JArr [JStr ''a'', JStr ''b''], ''multi_select'', PMultiSelect [''a'', ''b'']),
              (''due'', JStr ''2024-01-01'', ''date'', PDate ''2024-01-01T00:00:00.000Z''),
              (''done'', JBool True, ''checkbox'', PCheckbox True),
              (''homepage'', JStr ''https://example.com'', ''url'', PUrl ''https://example.com''),
              (''contact'', JStr ''ann@example.com'', ''email'', PEmail ''ann@example.com''),
              (''phone'', JStr ''+1 555 0100'', ''phone'', PPhone ''+1 555 0100'')].
             inferPropertyFormat key v = Some declared
             \<and> fst (encode rt now [(key, v)]
                    [\<lparr>prop_id = ''p1'', prop_key = key, prop_name = key, prop_format = declared\<rparr>]
                    skip tr) = []
             \<and> fst (encode rt now [(key, v)] [] skip tr) = [\<lparr>pv_key = key, pv_payload = payload\<rparr>]))
   \<and> (\<forall>key v inferredFormat. inferPropertyFormat key v = Some inferredFormat
         \<longrightarrow> inferredFormat \<in> {''multi_select'', ''select'', ''date'', ''url'', ''email'', ''phone'',
                                 ''text'', ''number'', ''checkbox''})
   \<and> (\<forall>key v. inferPropertyFormat key v \<noteq> Some ''files''
               \<and> inferPropertyFormat key v \<noteq> Some ''objects'')"
proof -
  let ?pm = "propertyMap availableProperties"
  let ?P = "\<lambda>encode.
        (\<forall>pv \<in> set (fst (encode rt now frontmatter availableProperties skip tr)).
           \<forall>d. ?pm (pv_key pv) = Some d
             \<longrightarrow> prop_format d = ''text'' \<or> prop_format d = ''number'')
      \<and> (\<forall>key v inferredFormat pv.
             (key, v) \<in> set frontmatter
             \<and> key \<notin> set READ_ONLY_PROPERTIES
             \<and> \<not> (skip \<and> key \<in> set SYSTEM_PROPERTIES)
             \<and> ?pm key = None
             \<and> inferPropertyFormat key v = Some inferredFormat
             \<and> fst (formatForAPI rt now key v inferredFormat None tr) = Some pv
             \<longrightarrow> pv \<in> set (fst (encode rt now frontmatter availableProperties skip tr)))
      \<and> (\<forall>(key, v, declared, payload) \<in> set
             [(''status'', JStr ''open'', ''select'', PSelect ''open''),
              (''tags'', JArr [JStr ''a'', JStr ''b''], ''multi_select'', PMultiSelect [''a'', ''b'']),
              (''due'', JStr ''2024-01-01'', ''date'', PDate ''2024-01-01T00:00:00.000Z''),
              (''done'', JBool True, ''checkbox'', PCheckbox True),
              (''homepage'', JStr ''https://example.com'', ''url'', PUrl ''https://example.com''),
              (''contact'', JStr ''ann@example.com'', ''email'', PEmail ''ann@example.com''),
              (''phone'', JStr ''+1 555 0100'', ''phone'', PPhone ''+1 555 0100'')].
             inferPropertyFormat key v = Some declared
             \<and> fst (encode rt now [(key, v)]
                    [\<lparr>prop_id = ''p1'', prop_key = key, prop_name = key, prop_format = declared\<rparr>]
                    skip tr) = []
             \<and> fst (encode rt now [(key, v)] [] skip tr) = [\<lparr>pv_key = key, pv_payload = payload\<rparr>])"
  have allowed: "ALLOWED_PROPERTY_FORMATS = [''text'', ''number'']"
    by (simp add: ALLOWED_PROPERTY_FORMATS_def)
  have gate: "\<forall>pv \<in> set (fst (extractFromFrontmatter rt now frontmatter availableProperties skip tr)).
      \<forall>d. ?pm (pv_key pv) = Some d \<longrightarrow> prop_format d = ''text'' \<or> prop_format d = ''number''"
  proof (intro ballI allI impI)
    fix pv d
    assume "pv \<in> set (fst (extractFromFrontmatter rt now frontmatter availableProperties skip tr))"
       and "?pm (pv_key pv) = Some d"
    then have "prop_format d \<in> set ALLOWED_PROPERTY_FORMATS"
      unfolding extractFromFrontmatter_def by (metis encodeEntries_keys prod.collapse)
    then show "prop_format d = ''text'' \<or> prop_format d = ''number''"
      by (simp add: ALLOWED_PROPERTY_FORMATS_def)
  qed
  have inferred: "\<forall>key v inferredFormat pv.
             (key, v) \<in> set frontmatter
             \<and> key \<notin> set READ_ONLY_PROPERTIES
             \<and> \<not> (skip \<and> key \<in> set SYSTEM_PROPERTIES)
             \<and> ?pm key = None
             \<and> inferPropertyFormat key v = Some inferredFormat
             \<and> fst (formatForAPI rt now key v inferredFormat None tr) = Some pv
             \<longrightarrow> pv \<in> set (fst (extractFromFrontmatter rt now frontmatter availableProperties skip tr))"
  proof (intro allI impI)
    fix key v inferredFormat pv
    assume a: "(key, v) \<in> set frontmatter
             \<and> key \<notin> set READ_ONLY_PROPERTIES
             \<and> \<not> (skip \<and> key \<in> set SYSTEM_PROPERTIES)
             \<and> ?pm key = None
             \<and> inferPropertyFormat key v = Some inferredFormat
             \<and> fst (formatForAPI rt now key v inferredFormat None tr) = Some pv"
    obtain ps tr' where r: "encodeEntries rt now skip ?pm frontmatter tr = (ps, tr')"
      by (cases "encodeEntries rt now skip ?pm frontmatter tr")
    from a have "pv \<in> set ps"
      using encodeEntries_inferred [of key skip ?pm v inferredFormat rt now tr pv frontmatter tr ps tr'] r
      by blast
    with r show "pv \<in> set (fst (extractFromFrontmatter rt now frontmatter availableProperties skip tr))"
      by (simp add: extractFromFrontmatter_def)
  qed
  have r1: "inferPropertyFormat ''status'' (JStr ''open'') = Some ''select''
      \<and> fst (extractFromFrontmatter rt now [(''status'', JStr ''open'')]
            [\<lparr>prop_id = ''p1'', prop_key = ''status'', prop_name = ''status'', prop_format = ''select''\<rparr>]
            skip tr) = []
      \<and> fst (extractFromFrontmatter rt now [(''status'', JStr ''open'')] [] skip tr)
          = [\<lparr>pv_key = ''status'', pv_payload = PSelect ''open''\<rparr>]"
    by (simp add: infer_simps encode_simps)
  have r2: "inferPropertyFormat ''tags'' (JArr [JStr ''a'', JStr ''b'']) = Some ''multi_select''
      \<and> fst (extractFromFrontmatter rt now [(''tags'', JArr [JStr ''a'', JStr ''b''])]
            [\<lparr>prop_id = ''p1'', prop_key = ''tags'', prop_name = ''tags'', prop_format = ''multi_select''\<rparr>]
            skip tr) = []
      \<and> fst (extractFromFrontmatter rt now [(''tags'', JArr [JStr ''a'', JStr ''b''])] [] skip tr)
          = [\<lparr>pv_key = ''tags'', pv_payload = PMultiSelect [''a'', ''b'']\<rparr>]"
    by (simp add: infer_simps encode_simps)
  have r3: "inferPropertyFormat ''due'' (JStr ''2024-01-01'') = Some ''date''
      \<and> fst (extractFromFrontmatter rt now [(''due'', JStr ''2024-01-01'')]
            [\<lparr>prop_id = ''p1'', prop_key = ''due'', prop_name = ''due'', prop_format = ''date''\<rparr>]
            skip tr) = []
      \<and> fst (extractFromFrontmatter rt now [(''due'', JStr ''2024-01-01'')] [] skip tr)
          = [\<lparr>pv_key = ''due'', pv_payload = PDate ''2024-01-01T00:00:00.000Z''\<rparr>]"
    by (simp add: infer_simps encode_simps)
  have r4: "inferPropertyFormat ''done'' (JBool True) = Some ''checkbox''
      \<and> fst (extractFromFrontmatter rt now [(''done'', JBool True)]
            [\<lparr>prop_id = ''p1'', prop_key = ''done'', prop_name = ''done'', prop_format = ''checkbox''\<rparr>]
            skip tr) = []
      \<and> fst (extractFromFrontmatter rt now [(''done'', JBool True)] [] skip tr)
          = [\<lparr>pv_key = ''done'', pv_payload = PCheckbox True\<rparr>]"
    by (simp add: infer_simps encode_simps)
  have r5: "inferPropertyFormat ''homepage'' (JStr ''https://example.com'') = Some ''url''
      \<and> fst (extractFromFrontmatter rt now [(''homepage'', JStr ''https://example.com'')]
            [\<lparr>prop_id = ''p1'', prop_key = ''homepage'', prop_name = ''homepage'', prop_format = ''url''\<rparr>]
            skip tr) = []
      \<and> fst (extractFromFrontmatter rt now [(''homepage'', JStr ''https://example.com'')] [] skip tr)
          = [\<lparr>pv_key = ''homepage'', pv_payload = PUrl ''https://example.com''\<rparr>]"
    by (simp add: infer_simps encode_simps)
  have r6: "inferPropertyFormat ''contact'' (JStr ''ann@example.com'') = Some ''email''
      \<and> fst (extractFromFrontmatter rt now [(''contact'', JStr ''ann@example.com'')]
            [\<lparr>prop_id = ''p1'', prop_key = ''contact'', prop_name = ''contact'', prop_format = ''email''\<rparr>]
            skip tr) = []
      \<and> fst (extractFromFrontmatter rt now [(''contact'', JStr ''ann@example.com'')] [] skip tr)
          = [\<lparr>pv_key = ''contact'', pv_payload = PEmail ''ann@example.com''\<rparr>]"
    by (simp add: infer_simps encode_simps)
  have r7: "inferPropertyFormat ''phone'' (JStr ''+1 555 0100'') = Some ''phone''
      \<and> fst (extractFromFrontmatter rt now [(''phone'', JStr ''+1 555 0100'')]
            [\<lparr>prop_id = ''p1'', prop_key = ''phone'', prop_name = ''phone'', prop_format = ''phone''\<rparr>]
            skip tr) = []
      \<and> fst (extractFromFrontmatter rt now [(''phone'', JStr ''+1 555 0100'')] [] skip tr)
          = [\<lparr>pv_key = ''phone'', pv_payload = PPhone ''+1 555 0100''\<rparr>]"
    by (simp add: infer_simps encode_simps)
  have same: "buildValidatedProperties = extractFromFrontmatter"
    by (intro ext) (simp add: buildValidatedProperties_def extractFromFrontmatter_def)
  have E: "?P extractFromFrontmatter"
    using gate inferred r1 r2 r3 r4 r5 r6 r7 by simp
  have B: "?P buildValidatedProperties"
    using E unfolding same .
  have range: "\<forall>key v inferredFormat. inferPropertyFormat key v = Some inferredFormat
         \<longrightarrow> inferredFormat \<in> {''multi_select'', ''select'', ''date'', ''url'', ''email'', ''phone'',
                                 ''text'', ''number'', ''checkbox''}"
    by (intro allI impI) (rule inferPropertyFormat_range)
  have never: "\<forall>key v. inferPropertyFormat key v \<noteq> Some ''files''
               \<and> inferPropertyFormat key v \<noteq> Some ''objects''"
  proof (intro allI)
    fix key v
    have "''files'' \<notin> {''multi_select'', ''select'', ''date'', ''url'', ''email'', ''phone'',
                         ''text'', ''number'', ''checkbox''}"
     and "''objects'' \<notin> {''multi_select'', ''select'', ''date'', ''url'', ''email'', ''phone'',
                         ''text'', ''number'', ''checkbox''}"
      by simp_all
    with inferPropertyFormat_range [of key v "''files''"]
         inferPropertyFormat_range [of key v "''objects''"]
    show "inferPropertyFormat key v \<noteq> Some ''files'' \<and> inferPropertyFormat key v \<noteq> Some ''objects''"
      by blast
  qed
  from allowed E B range never show ?thesis by simp
qed

text \<open>The claim as stated has every richer format reachable through inference. A list of
  file ids under a key declared \<^verbatim>\<open>files\<close>, and a list of object ids under a key declared
  \<^verbatim>\<open>objects\<close>, are skipped; absent from the schema they are encoded as \<^verbatim>\<open>multi_select\<close>, which
  is what inference gives for an array, and not under the richer format.\<close>

theorem files_objects_never_inferred_counterexample:
  "inferPropertyFormat ''attachments'' (JArr [JStr ''file1'']) = Some ''multi_select''
   \<and> inferPropertyFormat ''attachments'' (JArr [JStr ''file1'']) \<noteq> Some ''files''
   \<and> fst (extractFromFrontmatter noRuntime 0 [(''attachments'', JArr [JStr ''file1''])]
        [\<lparr>prop_id = ''p1'', prop_key = ''attachments'', prop_name = ''Attachments'',
          prop_format = ''files''\<rparr>] True newTagResolver) = []
   \<and> fst (extractFromFrontmatter noRuntime 0 [(''attachments'', JArr [JStr ''file1''])] []
        True newTagResolver)
      = [\<lparr>pv_key = ''attachments'', pv_payload = PMultiSelect [''file1'']\<rparr>]
   \<and> fst (formatForAPI noRuntime 0 ''attachments'' (JArr [JStr ''file1'']) ''files'' None newTagResolver)
      = Some \<lparr>pv_key = ''attachments'', pv_payload = PFiles [''file1'']\<rparr>
   \<and> inferPropertyFormat ''related'' (JArr [JStr ''obj1'']) = Some ''multi_select''
   \<and> inferPropertyFormat ''related'' (JArr [JStr ''obj1'']) \<noteq> Some ''objects''
   \<and> fst (extractFromFrontmatter noRuntime 0 [(''related'', JArr [JStr ''obj1''])]
        [\<lparr>prop_id = ''p2'', prop_key = ''related'', prop_name = ''Related'',
          prop_format = ''objects''\<rparr>] True newTagResolver) = []
   \<and> fst (extractFromFrontmatter noRuntime 0 [(''related'', JArr [JStr ''obj1''])] []
        True newTagResolver)
      = [\<lparr>pv_key = ''related'', pv_payload = PMultiSelect [''obj1'']\<rparr>]"
  by (simp add: infer_simps encode_simps)

text \<open>A run with a schema that declares \<^verbatim>\<open>title\<close> as \<^verbatim>\<open>text\<close> and \<^verbatim>\<open>due\<close> as \<^verbatim>\<open>date\<close>, and a
  key \<^verbatim>\<open>done\<close> that the schema does not have: \<^verbatim>\<open>title\<close> is emitted as declared, \<^verbatim>\<open>due\<close> is
  skipped, and \<^verbatim>\<open>done\<close> is emitted as the \<^verbatim>\<open>checkbox\<close> that inference gives.\<close>

theorem allowed_formats_gate_witness:
  "\<forall>rt. fst (buildValidatedProperties rt 0
            [(''title'', JStr ''Hello''), (''due'', JStr ''2024-01-01''), (''done'', JBool True)]
            [\<lparr>prop_id = ''p0'', prop_key = ''title'', prop_name = ''Title'', prop_format = ''text''\<rparr>,
             \<lparr>prop_id = ''p1'', prop_key = ''due'', prop_name = ''Due'', prop_format = ''date''\<rparr>]
            True newTagResolver)
        = [\<lparr>pv_key = ''title'', pv_payload = PText ''Hello''\<rparr>,
           \<lparr>pv_key = ''done'', pv_payload = PCheckbox True\<rparr>]
      \<and> propertyMap
            [\<lparr>prop_id = ''p0'', prop_key = ''title'', prop_name = ''Title'', prop_format = ''text''\<rparr>,
             \<lparr>prop_id = ''p1'', prop_key = ''due'', prop_name = ''Due'', prop_format = ''date''\<rparr>]
            ''title''
        = Some \<lparr>prop_id = ''p0'', prop_key = ''title'', prop_name = ''Title'', prop_format = ''text''\<rparr>
      \<and> \<lparr>pv_key = ''done'', pv_payload = PCheckbox True\<rparr>
          \<in> set (fst (buildValidatedProperties rt 0
            [(''title'', JStr ''Hello''), (''due'', JStr ''2024-01-01''), (''done'', JBool True)]
            [\<lparr>prop_id = ''p0'', prop_key = ''title'', prop_name = ''Title'', prop_format = ''text''\<rparr>,
             \<lparr>prop_id = ''p1'', prop_key = ''due'', prop_name = ''Due'', prop_format = ''date''\<rparr>]
            True newTagResolver))"
proof (intro allI)
  fix rt
  let ?props = "[\<lparr>prop_id = ''p0'', prop_key = ''title'', prop_name = ''Title'', prop_format = ''text''\<rparr>,
             \<lparr>prop_id = ''p1'', prop_key = ''due'', prop_name = ''Due'', prop_format = ''date''\<rparr>]"
  let ?fm = "[(''title'', JStr ''Hello''), (''due'', JStr ''2024-01-01''), (''done'', JBool True)]"
  let ?out = "fst (buildValidatedProperties rt 0 ?fm ?props True newTagResolver)"
  let ?done = "\<lparr>pv_key = ''done'', pv_payload = PCheckbox True\<rparr>"
  have out: "?out = [\<lparr>pv_key = ''title'', pv_payload = PText ''Hello''\<rparr>, ?done]"
    by (simp add: infer_simps encode_simps)
  have pm: "propertyMap ?props ''title''
        = Some \<lparr>prop_id = ''p0'', prop_key = ''title'', prop_name = ''Title'', prop_format = ''text''\<rparr>"
    by (simp add: propertyMap_def)
  have hyp: "(''done'', JBool True) \<in> set ?fm
             \<and> ''done'' \<notin> set READ_ONLY_PROPERTIES
             \<and> \<not> (True \<and> ''done'' \<in> set SYSTEM_PROPERTIES)
             \<and> propertyMap ?props ''done'' = None
             \<and> inferPropertyFormat ''done'' (JBool True) = Some ''checkbox''
             \<and> fst (formatForAPI rt 0 ''done'' (JBool True) ''checkbox'' None newTagResolver) = Some ?done"
    by (simp add: infer_simps encode_simps)
  from allowed_formats_gate [of rt 0 ?fm ?props True newTagResolver]
  have "\<forall>key v inferredFormat pv.
             (key, v) \<in> set ?fm
             \<and> key \<notin> set READ_ONLY_PROPERTIES
             \<and> \<not> (True \<and> key \<in> set SYSTEM_PROPERTIES)
             \<and> propertyMap ?props key = None
             \<and> inferPropertyFormat key v = Some inferredFormat
             \<and> fst (formatForAPI rt 0 key v inferredFormat None newTagResolver) = Some pv
             \<longrightarrow> pv \<in> set ?out"
    by blast
  with hyp have mem: "?done \<in> set ?out" by blast
  from out pm mem
  show "?out = [\<lparr>pv_key = ''title'', pv_payload = PText ''Hello''\<rparr>, ?done]
      \<and> propertyMap ?props ''title''
        = Some \<lparr>prop_id = ''p0'', prop_key = ''title'', prop_name = ''Title'', prop_format = ''text''\<rparr>
      \<and> ?done \<in> set ?out"
    by blast
qed

section \<open>Translating local links to remote links\<close>

lemma matchWikilink_pos: "matchWikilink s = Some (t, d, n) \<Longrightarrow> 0 < n"
  by (auto simp add: matchWikilink_def Let_def split: if_splits)

text \<open>The segments of the scan tile the scanned text: nothing is lost between matches.\<close>

lemma scanLinks_tiles: "concat (map segmentText (scanLinks s)) = s"
proof (induction s rule: scanLinks.induct)
  case 1
  then show ?case by simp
next
  case (2 c cs)
  show ?case
  proof (cases "matchWikilink (c # cs)")
    case None
    with 2(1) show ?thesis by simp
  next
    case (Some a)
    obtain t d n where a: "a = (t, d, n)" by (cases a)
    from Some a have pos: "0 < n" using matchWikilink_pos by blast
    then have "drop (n - 1) cs = drop n (c # cs)" by (cases n) simp_all
    with 2(2) [OF Some [unfolded a] refl refl] Some a show ?thesis
      by (simp del: drop_Suc_Cons)
  qed
qed

lemma replaceLink_unresolved:
  "\<not> resolvesTo cache sp t \<Longrightarrow> replaceLink cache sp m t d = m"
  by (simp add: resolvesTo_def replaceLink_def Let_def split: option.splits)

lemma render_all_unresolved:
  "\<forall>t \<in> set (linkTargets segs). \<not> resolvesTo cache sp t \<Longrightarrow>
   concat (map (renderSegment cache sp) segs) = concat (map segmentText segs)"
proof (induction segs)
  case Nil
  then show ?case by simp
next
  case (Cons seg segs)
  then show ?case by (cases seg) (simp_all add: replaceLink_unresolved)
qed

lemma convert_string:
  "refreshCacheIfNeeded now vaultFiles r = Inr r' \<Longrightarrow>
   fst (convertWikilinksToAnyTypeUrls now vaultFiles (JStr s) sp r)
     = JStr (concat (map (renderSegment (noteCache r') sp) (scanLinks s)))"
  by (cases s) (simp_all add: convertWikilinksToAnyTypeUrls_def)

text \<open>
  C3 (as amended). Let the cache be the one the call works with after its refresh. The
  translation splits the text into link occurrences and the characters between them, and
  its output is the concatenation of what each segment is rendered to. Every occurrence
  \<^verbatim>\<open>[[A]]\<close> or \<^verbatim>\<open>[[A|Display]]\<close> whose target the lookup of the resolver does not resolve to an
  entry of the current space is rendered as the very text that was matched. The lookup is
  \<^verbatim>\<open>findObjectByName\<close> on the trimmed target: exact title, then case-insensitive title, then
  substring in either direction, first hit in cache order. When no occurrence of the text
  resolves, the output equals the input.
\<close>

theorem unresolved_wikilinks_kept:
  assumes "refreshCacheIfNeeded now vaultFiles r = Inr r'"
  shows "concat (map segmentText (scanLinks s)) = s
       \<and> fst (convertWikilinksToAnyTypeUrls now vaultFiles (JStr s) sp r)
           = JStr (concat (map (renderSegment (noteCache r') sp) (scanLinks s)))
       \<and> (\<forall>m t d. Link m t d \<in> set (scanLinks s) \<longrightarrow> \<not> resolvesTo (noteCache r') sp t
             \<longrightarrow> renderSegment (noteCache r') sp (Link m t d) = m)
       \<and> ((\<forall>t \<in> set (linkTargets (scanLinks s)). \<not> resolvesTo (noteCache r') sp t)
             \<longrightarrow> fst (convertWikilinksToAnyTypeUrls now vaultFiles (JStr s) sp r) = JStr s)"
  using convert_string [OF assms, of s sp] scanLinks_tiles [of s]
    render_all_unresolved [of "scanLinks s" "noteCache r'" sp]
  by (simp add: replaceLink_unresolved)

text \<open>A run: the vault holds the synchronized note \<^verbatim>\<open>Foobar\<close> of space \<^verbatim>\<open>S1\<close>; a text of
  space \<^verbatim>\<open>S2\<close> that links to \<^verbatim>\<open>Zed\<close> and to \<^verbatim>\<open>Foobar\<close> comes back as it was.\<close>

theorem unresolved_wikilinks_kept_witness:
  "refreshCacheIfNeeded 1000
     (Inr [\<lparr>file_path = ''Foobar.md'', file_basename = ''Foobar'', file_parent = '''',
            file_content = ''text'',
            file_frontmatter = [(''id'', JStr ''obj1''), (''space_id'', JStr ''S1'')]\<rparr>])
     newWikilinkResolver
   = Inr \<lparr>noteCache = [(''Foobar'', \<lparr>info_objectId = ''obj1'', info_spaceId = ''S1''\<rparr>)],
          cacheExpiry = 31000\<rparr>
   \<and> linkTargets (scanLinks ''see [[Zed]] and [[Foobar|it]]'') = [''Zed'', ''Foobar'']
   \<and> \<not> resolvesTo [(''Foobar'', \<lparr>info_objectId = ''obj1'', info_spaceId = ''S1''\<rparr>)] ''S2'' ''Zed''
   \<and> \<not> resolvesTo [(''Foobar'', \<lparr>info_objectId = ''obj1'', info_spaceId = ''S1''\<rparr>)] ''S2'' ''Foobar''
   \<and> fst (convertWikilinksToAnyTypeUrls 1000
       (Inr [\<lparr>file_path = ''Foobar.md'', file_basename = ''Foobar'', file_parent = '''',
            file_content = ''text'',
            file_frontmatter = [(''id'', JStr ''obj1''), (''space_id'', JStr ''S1'')]\<rparr>])
       (JStr ''see [[Zed]] and [[Foobar|it]]'') ''S2'' newWikilinkResolver)
     = JStr ''see [[Zed]] and [[Foobar|it]]''"
proof -
  let ?files = "[\<lparr>file_path = ''Foobar.md'', file_basename = ''Foobar'', file_parent = '''',
            file_content = ''text'',
            file_frontmatter = [(''id'', JStr ''obj1''), (''space_id'', JStr ''S1'')]\<rparr>]"
  let ?cache = "[(''Foobar'', \<lparr>info_objectId = ''obj1'', info_spaceId = ''S1''\<rparr>)]"
  let ?r' = "\<lparr>noteCache = ?cache, cacheExpiry = 31000\<rparr>"
  have refresh: "refreshCacheIfNeeded 1000 (Inr ?files) newWikilinkResolver = Inr ?r'"
    by code_simp
  have targets: "linkTargets (scanLinks ''see [[Zed]] and [[Foobar|it]]'') = [''Zed'', ''Foobar'']"
    by code_simp
  have zed: "\<not> resolvesTo ?cache ''S2'' ''Zed''"
    by code_simp
  have foobar: "\<not> resolvesTo ?cache ''S2'' ''Foobar''"
    by code_simp
  from targets zed foobar
  have none: "\<forall>t \<in> set (linkTargets (scanLinks ''see [[Zed]] and [[Foobar|it]]'')).
                \<not> resolvesTo (noteCache ?r') ''S2'' t"
    by simp
  from unresolved_wikilinks_kept [OF refresh, of "''see [[Zed]] and [[Foobar|it]]''" "''S2''"] none
  have "fst (convertWikilinksToAnyTypeUrls 1000 (Inr ?files)
          (JStr ''see [[Zed]] and [[Foobar|it]]'') ''S2'' newWikilinkResolver)
        = JStr ''see [[Zed]] and [[Foobar|it]]''"
    by blast
  with refresh targets zed foobar show ?thesis by blast
qed

text \<open>
  The claim as stated asks only that \<open>A\<close> is not indexed. With the one synchronized note
  \<^verbatim>\<open>Foobar\<close> of space \<^verbatim>\<open>S1\<close>, the title \<^verbatim>\<open>Foo\<close> is not a key of the cache, and yet \<^verbatim>\<open>[[Foo]]\<close> is
  rewritten to the object of \<^verbatim>\<open>Foobar\<close>, through the substring tier of the lookup.
\<close>

theorem substring_lookup_counterexample:
  "map_of (buildNoteCache
      [\<lparr>file_path = ''Foobar.md'', file_basename = ''Foobar'', file_parent = '''',
        file_content = ''text'',
        file_frontmatter = [(''id'', JStr ''obj1''), (''space_id'', JStr ''S1'')]\<rparr>]) ''Foo'' = None
   \<and> fst (convertWikilinksToAnyTypeUrls 1000
       (Inr [\<lparr>file_path = ''Foobar.md'', file_basename = ''Foobar'', file_parent = '''',
            file_content = ''text'',
            file_frontmatter = [(''id'', JStr ''obj1''), (''space_id'', JStr ''S1'')]\<rparr>])
       (JStr ''[[Foo]]'') ''S1'' newWikilinkResolver)
     = JStr ''[Foo](anytype://object?objectId=obj1&spaceId=S1)''"
  by code_simp

text \<open>
  C7 (as amended). A falsy input (\<^verbatim>\<open>null\<close>, \<^verbatim>\<open>undefined\<close>, the empty string, \<^verbatim>\<open>0\<close>, \<^verbatim>\<open>NaN\<close>,
  \<^verbatim>\<open>false\<close>) gives the empty string; any other input that is not a string is returned as it
  is; and for a string input, when the rebuild of the cache raises, the original text is
  returned unmodified.
\<close>

theorem convert_fail_safe:
  "(\<not> truthy markdown \<longrightarrow>
      fst (convertWikilinksToAnyTypeUrls now vaultFiles markdown sp r) = JStr [])
   \<and> (truthy markdown \<and> \<not> isString markdown \<longrightarrow>
      fst (convertWikilinksToAnyTypeUrls now vaultFiles markdown sp r) = markdown)
   \<and> (\<forall>e r'. refreshCacheIfNeeded now vaultFiles r = Inl (e, r') \<longrightarrow>
      fst (convertWikilinksToAnyTypeUrls now vaultFiles (JStr s) sp r) = JStr s)"
  by (cases markdown) (auto simp add: convertWikilinksToAnyTypeUrls_def)

theorem convert_fail_safe_witness:
  "fst (convertWikilinksToAnyTypeUrls 1000 (Inr []) JNull ''S1'' newWikilinkResolver) = JStr []
   \<and> fst (convertWikilinksToAnyTypeUrls 1000 (Inr []) (JArr [JStr ''x'']) ''S1'' newWikilinkResolver)
       = JArr [JStr ''x'']
   \<and> refreshCacheIfNeeded 1000 (Inl (Error ''vault is gone'')) newWikilinkResolver
       = Inl (Error ''vault is gone'', newWikilinkResolver)
   \<and> fst (convertWikilinksToAnyTypeUrls 1000 (Inl (Error ''vault is gone''))
            (JStr ''see [[Zed]]'') ''S1'' newWikilinkResolver) = JStr ''see [[Zed]]''"
proof -
  have a: "\<not> truthy JNull" by simp
  have b: "truthy (JArr [JStr ''x'']) \<and> \<not> isString (JArr [JStr ''x''])" by simp
  have c: "refreshCacheIfNeeded 1000 (Inl (Error ''vault is gone'')) newWikilinkResolver
       = Inl (Error ''vault is gone'', newWikilinkResolver)"
    by (simp add: refreshCacheIfNeeded_def newWikilinkResolver_def)
  from convert_fail_safe [of JNull 1000 "Inr []" "''S1''" newWikilinkResolver] a
  have a': "fst (convertWikilinksToAnyTypeUrls 1000 (Inr []) JNull ''S1'' newWikilinkResolver)
              = JStr []" by blast
  from convert_fail_safe [of "JArr [JStr ''x'']" 1000 "Inr []" "''S1''" newWikilinkResolver] b
  have b': "fst (convertWikilinksToAnyTypeUrls 1000 (Inr []) (JArr [JStr ''x'']) ''S1''
              newWikilinkResolver) = JArr [JStr ''x'']" by blast
  from convert_fail_safe [of JNull 1000 "Inl (Error ''vault is gone'')" "''S1''"
      newWikilinkResolver "''see [[Zed]]''"] c
  have c': "fst (convertWikilinksToAnyTypeUrls 1000 (Inl (Error ''vault is gone''))
            (JStr ''see [[Zed]]'') ''S1'' newWikilinkResolver) = JStr ''see [[Zed]]''" by blast
  from a' b' c c' show ?thesis by blast
qed

text \<open>The claim as stated has every input that is not a string give the empty string; the
  number 42 comes back as the number 42.\<close>

theorem truthy_non_string_counterexample:
  "fst (convertWikilinksToAnyTypeUrls 1000 (Inr []) (JNum (Num 42)) ''S1'' newWikilinkResolver)
     = JNum (Num 42)
   \<and> JNum (Num 42) \<noteq> JStr []"
  by (simp add: convertWikilinksToAnyTypeUrls_def)

section \<open>Batch operations\<close>

lemma importOutcomes_count:
  "count_list (importOutcomes rt np now fF cB skip safe folder types objs vault) FetchRaised
   + count_list (importOutcomes rt np now fF cB skip safe folder types objs vault) WriteRaised
   + count_list (importOutcomes rt np now fF cB skip safe folder types objs vault) Written
   = length (filter (requestedType types) objs)"
  by (induction objs arbitrary: vault) (auto split: sum.splits prod.splits)

lemma callback_written:
  "createOrUpdateObsidianNote rt np now object skip safe folder vault = Inr v1 \<Longrightarrow>
   \<exists>s1. createObjectProcessorCallback rt np now skip safe folder (stats, vault) object = (s1, v1)
      \<and> stats_failed s1 = stats_failed stats
      \<and> stats_created s1 + stats_updated s1 = stats_created stats + stats_updated stats + 1"
  by (auto simp add: createObjectProcessorCallback_def Let_def)

lemma callback_raised:
  "createOrUpdateObsidianNote rt np now object skip safe folder vault = Inl (e, v1) \<Longrightarrow>
   \<exists>s1. createObjectProcessorCallback rt np now skip safe folder (stats, vault) object = (s1, v1)
      \<and> stats_failed s1 = stats_failed stats + 1
      \<and> stats_created s1 + stats_updated s1 = stats_created stats + stats_updated stats"
  by (auto simp add: createObjectProcessorCallback_def Let_def)

lemma import_counts:
  "getAllObjects fF cB types (createObjectProcessorCallback rt np now skip safe folder) objs
     (stats, vault) = (stats', vault')
   \<Longrightarrow> stats_failed stats' = stats_failed stats
         + count_list (importOutcomes rt np now fF cB skip safe folder types objs vault) WriteRaised
     \<and> stats_created stats' + stats_updated stats' = stats_created stats + stats_updated stats
         + count_list (importOutcomes rt np now fF cB skip safe folder types objs vault) Written"
proof (induction objs arbitrary: stats vault)
  case Nil
  then show ?case by simp
next
  case (Cons obj objs)
  show ?case
  proof (cases "requestedType types obj")
    case False
    with Cons.prems Cons.IH [of stats vault] show ?thesis by simp
  next
    case req: True
    show ?thesis
    proof (cases "fetchObject fF cB obj")
      case (Inl e)
      with req Cons.prems Cons.IH [of stats vault] show ?thesis by simp
    next
      case (Inr object)
      show ?thesis
      proof (cases "createOrUpdateObsidianNote rt np now object skip safe folder vault")
        case (Inl a)
        obtain e v1 where a: "a = (e, v1)" by (cases a)
        from callback_raised [OF Inl [unfolded a], of stats]
        obtain s1 where s1: "createObjectProcessorCallback rt np now skip safe folder (stats, vault) object = (s1, v1)"
          and f1: "stats_failed s1 = stats_failed stats + 1"
          and c1: "stats_created s1 + stats_updated s1 = stats_created stats + stats_updated stats"
          by blast
        from Cons.prems req Inr s1
        have "getAllObjects fF cB types (createObjectProcessorCallback rt np now skip safe folder) objs
                (s1, v1) = (stats', vault')" by simp
        from Cons.IH [OF this] f1 c1 req Inr Inl a show ?thesis by simp
      next
        case written: (Inr v1)
        from callback_written [OF written, of stats]
        obtain s1 where s1: "createObjectProcessorCallback rt np now skip safe folder (stats, vault) object = (s1, v1)"
          and f1: "stats_failed s1 = stats_failed stats"
          and c1: "stats_created s1 + stats_updated s1 = stats_created stats + stats_updated stats + 1"
          by blast
        from Cons.prems req Inr s1
        have "getAllObjects fF cB types (createObjectProcessorCallback rt np now skip safe folder) objs
                (s1, v1) = (stats', vault')" by simp
        from Cons.IH [OF this] f1 c1 req Inr written show ?thesis by simp
      qed
    qed
  qed
qed

lemma syncRaises_count:
  "count_list (syncRaises syncNote w fs) True + count_list (syncRaises syncNote w fs) False
     = length fs"
  by (induction fs arbitrary: w) (auto split: sum.splits prod.splits)

lemma sync_counts:
  "foldl (syncStep syncNote) (synced, failedCount, w) fs = (synced', failed', w')
   \<Longrightarrow> failed' = failedCount + count_list (syncRaises syncNote w fs) True
     \<and> synced' = synced + count_list (syncRaises syncNote w fs) False"
proof (induction fs arbitrary: synced failedCount w)
  case Nil
  then show ?case by simp
next
  case (Cons f fs)
  show ?case
  proof (cases "syncNote f w")
    case (Inl a)
    obtain e w1 where a: "a = (e, w1)" by (cases a)
    from Inl a have "syncStep syncNote (synced, failedCount, w) f = (synced, failedCount + 1, w1)"
      by (simp add: syncStep_def)
    with Cons.prems
    have "foldl (syncStep syncNote) (synced, failedCount + 1, w1) fs = (synced', failed', w')"
      by simp
    from Cons.IH [OF this] Inl a show ?thesis by simp
  next
    case (Inr w1)
    from Inr have "syncStep syncNote (synced, failedCount, w) f = (synced + 1, failedCount, w1)"
      by (simp add: syncStep_def)
    with Cons.prems
    have "foldl (syncStep syncNote) (synced + 1, failedCount, w1) fs = (synced', failed', w')"
      by simp
    from Cons.IH [OF this] Inr show ?thesis by simp
  qed
qed

text \<open>
  C5 (as amended). In a bulk import over the \<open>N\<close> objects of the requested types in which
  exactly one object raises, every other object is processed and the result counts
  \<open>N - 1\<close> successes (created or updated); the object that raised is counted as failed when
  the raise comes from \<^verbatim>\<open>createOrUpdateObsidianNote\<close> inside the callback, and is not counted
  at all when the raise comes from building the object inside \<^verbatim>\<open>getAllObjects\<close>, before the
  callback runs. In a bulk sync over the \<open>N\<close> notes that carry both identity headers in
  which \<^verbatim>\<open>syncNoteToAnyType\<close> raises for exactly one of them, the operation completes with
  one failure and \<open>N - 1\<close> synced notes, the other notes of the vault counted as skipped. A
  single raise never ends the batch.
\<close>

theorem batch_failure_isolation:
  "(count_list (importOutcomes rt np now fF cB skip safe folder types objs vault) WriteRaised = 1
      \<and> count_list (importOutcomes rt np now fF cB skip safe folder types objs vault) FetchRaised = 0
    \<longrightarrow> res_failed (fst (syncFromAnyType rt np now fF cB skip safe folder types objs vault)) = 1
      \<and> res_created (fst (syncFromAnyType rt np now fF cB skip safe folder types objs vault))
          + res_updated (fst (syncFromAnyType rt np now fF cB skip safe folder types objs vault))
          = length (filter (requestedType types) objs) - 1)
   \<and> (count_list (importOutcomes rt np now fF cB skip safe folder types objs vault) FetchRaised = 1
      \<and> count_list (importOutcomes rt np now fF cB skip safe folder types objs vault) WriteRaised = 0
    \<longrightarrow> res_failed (fst (syncFromAnyType rt np now fF cB skip safe folder types objs vault)) = 0
      \<and> res_created (fst (syncFromAnyType rt np now fF cB skip safe folder types objs vault))
          + res_updated (fst (syncFromAnyType rt np now fF cB skip safe folder types objs vault))
          = length (filter (requestedType types) objs) - 1)
   \<and> (isValidSpaceId spaceId \<and> isValidApiKey apiKey
       \<and> count_list (syncRaises syncNote w (getNotesWithAnyTypeMetadata allFiles)) True = 1 \<longrightarrow>
      (\<exists>res w'. syncAllNotes syncNote spaceId apiKey allFiles w = Inr (res, w')
         \<and> res_failed res = 1
         \<and> res_updated res = length (getNotesWithAnyTypeMetadata allFiles) - 1
         \<and> res_created res = 0
         \<and> res_skipped res = Some (length allFiles - length (getNotesWithAnyTypeMetadata allFiles))))"
proof -
  let ?outs = "importOutcomes rt np now fF cB skip safe folder types objs vault"
  let ?res = "fst (syncFromAnyType rt np now fF cB skip safe folder types objs vault)"
  let ?n = "length (filter (requestedType types) objs)"
  obtain stats' vault' where run:
    "getAllObjects fF cB types (createObjectProcessorCallback rt np now skip safe folder) objs
       (initializeSyncStatistics types, vault) = (stats', vault')"
    by (cases "getAllObjects fF cB types (createObjectProcessorCallback rt np now skip safe folder) objs
       (initializeSyncStatistics types, vault)")
  from import_counts [OF run]
  have f: "stats_failed stats' = count_list ?outs WriteRaised"
    and c: "stats_created stats' + stats_updated stats' = count_list ?outs Written"
    by (simp_all add: initializeSyncStatistics_def)
  from run f have rf: "res_failed ?res = count_list ?outs WriteRaised"
    by (simp add: syncFromAnyType_def finalizeSyncResults_def)
  from run f c have rc: "res_created ?res + res_updated ?res = count_list ?outs Written"
    by (simp add: syncFromAnyType_def finalizeSyncResults_def)
  note total = importOutcomes_count [of rt np now fF cB skip safe folder types objs vault]
  have import_write: "count_list ?outs WriteRaised = 1 \<and> count_list ?outs FetchRaised = 0
      \<longrightarrow> res_failed ?res = 1 \<and> res_created ?res + res_updated ?res = ?n - 1"
    using rf rc total by auto
  have import_fetch: "count_list ?outs FetchRaised = 1 \<and> count_list ?outs WriteRaised = 0
      \<longrightarrow> res_failed ?res = 0 \<and> res_created ?res + res_updated ?res = ?n - 1"
    using rf rc total by auto
  let ?el = "getNotesWithAnyTypeMetadata allFiles"
  let ?tr = "syncRaises syncNote w ?el"
  have sync: "isValidSpaceId spaceId \<and> isValidApiKey apiKey \<and> count_list ?tr True = 1 \<longrightarrow>
      (\<exists>res w'. syncAllNotes syncNote spaceId apiKey allFiles w = Inr (res, w')
         \<and> res_failed res = 1
         \<and> res_updated res = length ?el - 1
         \<and> res_created res = 0
         \<and> res_skipped res = Some (length allFiles - length ?el))"
  proof
    assume h: "isValidSpaceId spaceId \<and> isValidApiKey apiKey \<and> count_list ?tr True = 1"
    then have ne: "?el \<noteq> []" by auto
    obtain synced' failed' w' where srun:
      "foldl (syncStep syncNote) (0, 0, w) ?el = (synced', failed', w')"
      by (cases "foldl (syncStep syncNote) (0, 0, w) ?el")
    from sync_counts [OF srun] h
    have sf: "failed' = 1" and ss: "synced' = count_list ?tr False" by simp_all
    from syncRaises_count [of syncNote w ?el] h
    have n: "count_list ?tr False = length ?el - 1" by simp
    from h ne srun sf ss n
    show "\<exists>res w'. syncAllNotes syncNote spaceId apiKey allFiles w = Inr (res, w')
         \<and> res_failed res = 1
         \<and> res_updated res = length ?el - 1
         \<and> res_created res = 0
         \<and> res_skipped res = Some (length allFiles - length ?el)"
      by (simp add: syncAllNotes_def Let_def)
  qed
  from import_write import_fetch sync show ?thesis by blast
qed

text \<open>
  Three runs. An import in which the note of \<^verbatim>\<open>objA\<close> cannot be read and \<^verbatim>\<open>objB\<close> is new: one
  failure, one note created. An import in which the full fetch of \<^verbatim>\<open>objC\<close> fails and the
  fallback raises: no failure counted, \<^verbatim>\<open>objB\<close> created. A sync of three notes of which two
  carry identity headers and the sync of \<^verbatim>\<open>B\<close> raises.
\<close>

theorem batch_failure_isolation_witness:
  "importOutcomes noRuntime (\<lambda>p. p) 1000
      (\<lambda>obj. if so_id obj = ''objC'' then None
              else Some \<lparr>obj_id = JStr (so_id obj), obj_name = so_id obj, obj_type_key = ''page'',
                         obj_markdown = ''text'', obj_space_id = ''space1'', obj_properties = []\<rparr>)
      (\<lambda>obj. Inl (Error ''Cannot read properties of null''))
      True True '''' [''page'']
      [\<lparr>so_id = ''objA'', so_type_key = Some ''page''\<rparr>, \<lparr>so_id = ''objB'', so_type_key = Some ''page''\<rparr>]
      \<lparr>vault_files =
          [\<lparr>file_path = ''objA.md'', file_basename = ''objA'', file_parent = '''',
            file_content = ''old text'',
            file_frontmatter = [(''id'', JStr ''objA''), (''space_id'', JStr ''space1'')]\<rparr>],
        vault_folders = [], vault_failing = [''objA.md'']\<rparr>
     = [WriteRaised, Written]
   \<and> res_failed (fst (syncFromAnyType noRuntime (\<lambda>p. p) 1000
      (\<lambda>obj. if so_id obj = ''objC'' then None
              else Some \<lparr>obj_id = JStr (so_id obj), obj_name = so_id obj, obj_type_key = ''page'',
                         obj_markdown = ''text'', obj_space_id = ''space1'', obj_properties = []\<rparr>)
      (\<lambda>obj. Inl (Error ''Cannot read properties of null''))
      True True '''' [''page'']
      [\<lparr>so_id = ''objA'', so_type_key = Some ''page''\<rparr>, \<lparr>so_id = ''objB'', so_type_key = Some ''page''\<rparr>]
      \<lparr>vault_files =
          [\<lparr>file_path = ''objA.md'', file_basename = ''objA'', file_parent = '''',
            file_content = ''old text'',
            file_frontmatter = [(''id'', JStr ''objA''), (''space_id'', JStr ''space1'')]\<rparr>],
        vault_folders = [], vault_failing = [''objA.md'']\<rparr>)) = 1
   \<and> importOutcomes noRuntime (\<lambda>p. p) 1000
      (\<lambda>obj. if so_id obj = ''objC'' then None
              else Some \<lparr>obj_id = JStr (so_id obj), obj_name = so_id obj, obj_type_key = ''page'',
                         obj_markdown = ''text'', obj_space_id = ''space1'', obj_properties = []\<rparr>)
      (\<lambda>obj. Inl (Error ''Cannot read properties of null''))
      True True '''' [''page'']
      [\<lparr>so_id = ''objC'', so_type_key = Some ''page''\<rparr>, \<lparr>so_id = ''objB'', so_type_key = Some ''page''\<rparr>]
      \<lparr>vault_files = [], vault_folders = [], vault_failing = []\<rparr>
     = [FetchRaised, Written]
   \<and> res_failed (fst (syncFromAnyType noRuntime (\<lambda>p. p) 1000
      (\<lambda>obj. if so_id obj = ''objC'' then None
              else Some \<lparr>obj_id = JStr (so_id obj), obj_name = so_id obj, obj_type_key = ''page'',
                         obj_markdown = ''text'', obj_space_id = ''space1'', obj_properties = []\<rparr>)
      (\<lambda>obj. Inl (Error ''Cannot read properties of null''))
      True True '''' [''page'']
      [\<lparr>so_id = ''objC'', so_type_key = Some ''page''\<rparr>, \<lparr>so_id = ''objB'', so_type_key = Some ''page''\<rparr>]
      \<lparr>vault_files = [], vault_folders = [], vault_failing = []\<rparr>)) = 0
   \<and> syncRaises (\<lambda>f w. if file_basename f = ''B'' then Inl (Error ''update failed'', w) else Inr (Suc w))
        (0::nat)
        (getNotesWithAnyTypeMetadata
          [\<lparr>file_path = ''A.md'', file_basename = ''A'', file_parent = '''', file_content = ''a'',
            file_frontmatter = [(''id'', JStr ''objA''), (''space_id'', JStr ''space1'')]\<rparr>,
           \<lparr>file_path = ''B.md'', file_basename = ''B'', file_parent = '''', file_content = ''b'',
            file_frontmatter = [(''id'', JStr ''objB''), (''space_id'', JStr ''space1'')]\<rparr>,
           \<lparr>file_path = ''C.md'', file_basename = ''C'', file_parent = '''', file_content = ''c'',
            file_frontmatter = []\<rparr>])
     = [False, True]
   \<and> syncAllNotes (\<lambda>f w. if file_basename f = ''B'' then Inl (Error ''update failed'', w) else Inr (Suc w))
        ''space1'' ''0123456789abcdef''
          [\<lparr>file_path = ''A.md'', file_basename = ''A'', file_parent = '''', file_content = ''a'',
            file_frontmatter = [(''id'', JStr ''objA''), (''space_id'', JStr ''space1'')]\<rparr>,
           \<lparr>file_path = ''B.md'', file_basename = ''B'', file_parent = '''', file_content = ''b'',
            file_frontmatter = [(''id'', JStr ''objB''), (''space_id'', JStr ''space1'')]\<rparr>,
           \<lparr>file_path = ''C.md'', file_basename = ''C'', file_parent = '''', file_content = ''c'',
            file_frontmatter = []\<rparr>] (0::nat)
     = Inr (\<lparr>res_created = 0, res_updated = 1, res_failed = 1, res_skipped = Some 1,
             res_byType = None, res_objectTypes = None\<rparr>, 1)"
proof -
  let ?fF = "\<lambda>obj. if so_id obj = ''objC'' then None
              else Some \<lparr>obj_id = JStr (so_id obj), obj_name = so_id obj, obj_type_key = ''page'',
                         obj_markdown = ''text'', obj_space_id = ''space1'', obj_properties = []\<rparr>"
  let ?cB = "\<lambda>obj::SearchObject. (Inl (Error ''Cannot read properties of null'') :: error + AnyTypeObject)"
  let ?vault1 = "\<lparr>vault_files =
          [\<lparr>file_path = ''objA.md'', file_basename = ''objA'', file_parent = '''',
            file_content = ''old text'',
            file_frontmatter = [(''id'', JStr ''objA''), (''space_id'', JStr ''space1'')]\<rparr>],
        vault_folders = [], vault_failing = [''objA.md'']\<rparr>"
  let ?vault2 = "\<lparr>vault_files = [], vault_folders = [], vault_failing = []\<rparr>"
  let ?objs1 = "[\<lparr>so_id = ''objA'', so_type_key = Some ''page''\<rparr>, \<lparr>so_id = ''objB'', so_type_key = Some ''page''\<rparr>]"
  let ?objs2 = "[\<lparr>so_id = ''objC'', so_type_key = Some ''page''\<rparr>, \<lparr>so_id = ''objB'', so_type_key = Some ''page''\<rparr>]"
  let ?sync = "\<lambda>f (w::nat). if file_basename f = ''B'' then Inl (Error ''update failed'', w) else Inr (Suc w)"
  let ?files = "[\<lparr>file_path = ''A.md'', file_basename = ''A'', file_parent = '''', file_content = ''a'',
            file_frontmatter = [(''id'', JStr ''objA''), (''space_id'', JStr ''space1'')]\<rparr>,
           \<lparr>file_path = ''B.md'', file_basename = ''B'', file_parent = '''', file_content = ''b'',
            file_frontmatter = [(''id'', JStr ''objB''), (''space_id'', JStr ''space1'')]\<rparr>,
           \<lparr>file_path = ''C.md'', file_basename = ''C'', file_parent = '''', file_content = ''c'',
            file_frontmatter = []\<rparr>]"
  have o1: "importOutcomes noRuntime (\<lambda>p. p) 1000 ?fF ?cB True True '''' [''page''] ?objs1 ?vault1
              = [WriteRaised, Written]"
    by code_simp
  have o2: "importOutcomes noRuntime (\<lambda>p. p) 1000 ?fF ?cB True True '''' [''page''] ?objs2 ?vault2
              = [FetchRaised, Written]"
    by code_simp
  have str: "syncRaises ?sync 0 (getNotesWithAnyTypeMetadata ?files) = [False, True]"
    by code_simp
  have valid: "isValidSpaceId ''space1'' \<and> isValidApiKey ''0123456789abcdef''"
    by code_simp
  have whole: "syncAllNotes ?sync ''space1'' ''0123456789abcdef'' ?files 0
     = Inr (\<lparr>res_created = 0, res_updated = 1, res_failed = 1, res_skipped = Some 1,
             res_byType = None, res_objectTypes = None\<rparr>, 1)"
    by code_simp
  from batch_failure_isolation [of noRuntime "\<lambda>p. p" 1000 ?fF ?cB True True "''''" "[''page'']" ?objs1 ?vault1
              "''space1''" "''0123456789abcdef''" ?sync 0 ?files] o1 str valid
  have a: "res_failed (fst (syncFromAnyType noRuntime (\<lambda>p. p) 1000 ?fF ?cB True True ''''
             [''page''] ?objs1 ?vault1)) = 1"
    by simp
  from batch_failure_isolation [of noRuntime "\<lambda>p. p" 1000 ?fF ?cB True True "''''" "[''page'']" ?objs2 ?vault2
              "''space1''" "''0123456789abcdef''" ?sync 0 ?files] o2
  have b: "res_failed (fst (syncFromAnyType noRuntime (\<lambda>p. p) 1000 ?fF ?cB True True ''''
             [''page''] ?objs2 ?vault2)) = 0"
    by simp
  from o1 a o2 b str whole show ?thesis by blast
qed

text \<open>
  The claim as stated counts the one object whose processing raised as failed. Here the
  only object of the import raises while it is fetched, and the result counts no failure.
\<close>

theorem fetch_raise_counterexample:
  "importOutcomes noRuntime (\<lambda>p. p) 1000 (\<lambda>obj. None)
      (\<lambda>obj. Inl (Error ''Cannot read properties of null''))
      True True '''' [''page''] [\<lparr>so_id = ''objA'', so_type_key = Some ''page''\<rparr>]
      \<lparr>vault_files = [], vault_folders = [], vault_failing = []\<rparr> = [FetchRaised]
   \<and> res_failed (fst (syncFromAnyType noRuntime (\<lambda>p. p) 1000 (\<lambda>obj. None)
      (\<lambda>obj. Inl (Error ''Cannot read properties of null''))
      True True '''' [''page''] [\<lparr>so_id = ''objA'', so_type_key = Some ''page''\<rparr>]
      \<lparr>vault_files = [], vault_folders = [], vault_failing = []\<rparr>)) = 0"
  by code_simp

section \<open>File name collisions\<close>

lemma findFreeCounter_Some:
  "findFreeCounter vault np folder safeName c = Some k \<Longrightarrow>
     c \<le> k \<and> k \<le> maxCounter
   \<and> getAbstractFileByPath vault (notePath np folder (safeName @ '' '' @ showNat k)) = None
   \<and> (\<forall>j. c \<le> j \<and> j < k \<longrightarrow>
         getAbstractFileByPath vault (notePath np folder (safeName @ '' '' @ showNat j)) \<noteq> None)"
proof (induction vault np folder safeName c rule: findFreeCounter.induct)
  case (1 vault np folder safeName c)
  have unfold: "findFreeCounter vault np folder safeName c =
     (if c \<le> maxCounter then
        (if getAbstractFileByPath vault
              (notePath np folder (safeName @ '' '' @ showNat c)) = None
         then Some c
         else findFreeCounter vault np folder safeName (c + 1))
      else None)"
    by (rule findFreeCounter.simps)
  show ?case
  proof (cases "c \<le> maxCounter")
    case False
    with unfold have "findFreeCounter vault np folder safeName c = None"
      by (simp only: if_False)
    with "1.prems" show ?thesis by simp
  next
    case le: True
    show ?thesis
    proof (cases "getAbstractFileByPath vault (notePath np folder (safeName @ '' '' @ showNat c)) = None")
      case True
      with unfold le have "findFreeCounter vault np folder safeName c = Some c"
        by simp
      with "1.prems" have "k = c" by simp
      with le True show ?thesis by auto
    next
      case False
      with unfold le
      have "findFreeCounter vault np folder safeName c
              = findFreeCounter vault np folder safeName (c + 1)"
        by (simp only: if_True if_False)
      with "1.prems" have rec: "findFreeCounter vault np folder safeName (c + 1) = Some k"
        by simp
      from "1.IH" [OF le False rec]
      have ih: "c + 1 \<le> k" "k \<le> maxCounter"
        "getAbstractFileByPath vault (notePath np folder (safeName @ '' '' @ showNat k)) = None"
        "\<forall>j. c + 1 \<le> j \<and> j < k \<longrightarrow>
           getAbstractFileByPath vault (notePath np folder (safeName @ '' '' @ showNat j)) \<noteq> None"
        by blast+
      have "\<forall>j. c \<le> j \<and> j < k \<longrightarrow>
           getAbstractFileByPath vault (notePath np folder (safeName @ '' '' @ showNat j)) \<noteq> None"
      proof (intro allI impI)
        fix j assume j: "c \<le> j \<and> j < k"
        show "getAbstractFileByPath vault (notePath np folder (safeName @ '' '' @ showNat j)) \<noteq> None"
        proof (cases "j = c")
          case True
          with False show ?thesis by blast
        next
          case False
          with j have "c + 1 \<le> j \<and> j < k" by arith
          with ih(4) show ?thesis by blast
        qed
      qed
      with ih show ?thesis by auto
    qed
  qed
qed

lemma findFreeCounter_None:
  "findFreeCounter vault np folder safeName c = None \<Longrightarrow>
     (\<forall>j. c \<le> j \<and> j \<le> maxCounter \<longrightarrow>
         getAbstractFileByPath vault (notePath np folder (safeName @ '' '' @ showNat j)) \<noteq> None)"
proof (induction vault np folder safeName c rule: findFreeCounter.induct)
  case (1 vault np folder safeName c)
  have unfold: "findFreeCounter vault np folder safeName c =
     (if c \<le> maxCounter then
        (if getAbstractFileByPath vault
              (notePath np folder (safeName @ '' '' @ showNat c)) = None
         then Some c
         else findFreeCounter vault np folder safeName (c + 1))
      else None)"
    by (rule findFreeCounter.simps)
  show ?case
  proof (cases "c \<le> maxCounter")
    case False
    then show ?thesis by auto
  next
    case le: True
    show ?thesis
    proof (cases "getAbstractFileByPath vault (notePath np folder (safeName @ '' '' @ showNat c)) = None")
      case True
      with unfold le have "findFreeCounter vault np folder safeName c = Some c"
        by simp
      with "1.prems" show ?thesis by simp
    next
      case False
      with unfold le
      have "findFreeCounter vault np folder safeName c
              = findFreeCounter vault np folder safeName (c + 1)"
        by (simp only: if_True if_False)
      with "1.prems" have rec: "findFreeCounter vault np folder safeName (c + 1) = None"
        by simp
      note ih = "1.IH" [OF le False rec]
      show ?thesis
      proof (intro allI impI)
        fix j assume j: "c \<le> j \<and> j \<le> maxCounter"
        show "getAbstractFileByPath vault (notePath np folder (safeName @ '' '' @ showNat j)) \<noteq> None"
        proof (cases "j = c")
          case True
          with False show ?thesis by blast
        next
          case False
          with j have "c + 1 \<le> j \<and> j \<le> maxCounter" by arith
          with ih show ?thesis by blast
        qed
      qed
    qed
  qed
qed

lemma find_append_keep: "find P xs = Some x \<Longrightarrow> find P (xs @ ys) = Some x"
  by (induction xs) (auto split: if_splits)

lemma createNewNote_keeps:
  assumes "getAbstractFileByPath vault p = Some existingFile"
  shows "(case createNewNote vault np now object yaml folder of
            Inl (e, vault') \<Rightarrow> getAbstractFileByPath vault' p = Some existingFile
          | Inr vault' \<Rightarrow> getAbstractFileByPath vault' p = Some existingFile)"
  using assms
  by (auto simp add: createNewNote_def vaultCreate_def getAbstractFileByPath_def Let_def
      find_append_keep split: sum.splits if_splits)

text \<open>An empty base name is replaced by \<^verbatim>\<open>Untitled\<close>, which is also what the sanitizer makes
  of it.\<close>

lemma sanitizeFilename_default:
  "sanitizeFilename (if baseName = [] then ''Untitled'' else baseName) = sanitizeFilename baseName"
proof -
  have "sanitizeFilename ''Untitled'' = ''Untitled''" by code_simp
  moreover have "sanitizeFilename [] = ''Untitled''" by (simp add: sanitizeFilename_def)
  ultimately show ?thesis by simp
qed

lemma generateUniqueFilename_unfold:
  "generateUniqueFilename vault np now baseName folder =
     (case getAbstractFileByPath vault (notePath np folder (sanitizeFilename baseName)) of
        None \<Rightarrow> \<lparr> filename = sanitizeFilename baseName, hasConflict = False,
                  isManualNoteConflict = False \<rparr>
      | Some existingFile \<Rightarrow>
          (case findFreeCounter vault np folder (sanitizeFilename baseName) 1 of
             Some counter \<Rightarrow>
               \<lparr> filename = sanitizeFilename baseName @ '' '' @ showNat counter, hasConflict = True,
                 isManualNoteConflict =
                   (\<not> truthy (getProp (file_frontmatter existingFile) ''id'')
                    \<and> \<not> truthy (getProp (file_frontmatter existingFile) ''space_id'')) \<rparr>
           | None \<Rightarrow>
               \<lparr> filename = sanitizeFilename baseName @ '' '' @ showInt now, hasConflict = True,
                 isManualNoteConflict =
                   (\<not> truthy (getProp (file_frontmatter existingFile) ''id'')
                    \<and> \<not> truthy (getProp (file_frontmatter existingFile) ''space_id'')) \<rparr>))"
  unfolding generateUniqueFilename_def Let_def sanitizeFilename_default
  by (rule refl)

text \<open>
  C8 (as amended). What counts as a collision is a document at the path that the new note
  would get: the sanitized name of the remote object with \<^verbatim>\<open>.md\<close>, inside the import folder
  when one is set and at the root of the vault otherwise (for the name \<^verbatim>\<open>Foo\<close> and no
  import folder, the document \<^verbatim>\<open>Foo.md\<close>). When no document is at that path,
  \<^verbatim>\<open>generateUniqueFilename\<close> returns the sanitized name with no conflict and no manual-note
  conflict, whatever documents of the same title other folders hold. When a document is
  at that path and its header carries neither \<^verbatim>\<open>id\<close> nor \<^verbatim>\<open>space_id\<close>, it reports a conflict and
  a manual-note conflict, and returns the name with the first free numeric suffix among
  \<open>1\<close> to \<open>1000\<close> (\<^verbatim>\<open>Foo 1\<close> when that is free), or, when none of them is free, the name
  with the time stamp as its suffix. It only reads the vault; and \<^verbatim>\<open>createNewNote\<close>, which
  writes the new note under the returned name, leaves the existing document at its path,
  unchanged, whether the write succeeds or raises.
\<close>

theorem unique_filename_manual_collision:
  "(getAbstractFileByPath vault (notePath np folder (sanitizeFilename baseName)) = None
      \<longrightarrow> generateUniqueFilename vault np now baseName folder
            = \<lparr>filename = sanitizeFilename baseName, hasConflict = False,
                isManualNoteConflict = False\<rparr>)
   \<and> (\<forall>existingFile.
         getAbstractFileByPath vault (notePath np folder (sanitizeFilename baseName))
           = Some existingFile
         \<and> \<not> truthy (getProp (file_frontmatter existingFile) ''id'')
         \<and> \<not> truthy (getProp (file_frontmatter existingFile) ''space_id'')
       \<longrightarrow> hasConflict (generateUniqueFilename vault np now baseName folder)
         \<and> isManualNoteConflict (generateUniqueFilename vault np now baseName folder)
         \<and> (\<forall>k. 1 \<le> k \<and> k \<le> maxCounter
                \<and> getAbstractFileByPath vault
                     (notePath np folder (sanitizeFilename baseName @ '' '' @ showNat k)) = None
                \<and> (\<forall>j. 1 \<le> j \<and> j < k \<longrightarrow>
                      getAbstractFileByPath vault
                        (notePath np folder (sanitizeFilename baseName @ '' '' @ showNat j)) \<noteq> None)
              \<longrightarrow> filename (generateUniqueFilename vault np now baseName folder)
                    = sanitizeFilename baseName @ '' '' @ showNat k)
         \<and> ((\<forall>j. 1 \<le> j \<and> j \<le> maxCounter \<longrightarrow>
                 getAbstractFileByPath vault
                   (notePath np folder (sanitizeFilename baseName @ '' '' @ showNat j)) \<noteq> None)
              \<longrightarrow> filename (generateUniqueFilename vault np now baseName folder)
                    = sanitizeFilename baseName @ '' '' @ showInt now)
         \<and> (\<forall>object yaml. obj_name object = baseName \<longrightarrow>
               (case createNewNote vault np now object yaml folder of
                  Inl (e, vault') \<Rightarrow>
                    getAbstractFileByPath vault' (notePath np folder (sanitizeFilename baseName))
                      = Some existingFile
                | Inr vault' \<Rightarrow>
                    getAbstractFileByPath vault' (notePath np folder (sanitizeFilename baseName))
                      = Some existingFile)))"
proof (rule conjI)
  show "getAbstractFileByPath vault (notePath np folder (sanitizeFilename baseName)) = None
      \<longrightarrow> generateUniqueFilename vault np now baseName folder
            = \<lparr>filename = sanitizeFilename baseName, hasConflict = False,
                isManualNoteConflict = False\<rparr>"
    by (simp add: generateUniqueFilename_unfold)
next
  show "\<forall>existingFile.
         getAbstractFileByPath vault (notePath np folder (sanitizeFilename baseName))
           = Some existingFile
         \<and> \<not> truthy (getProp (file_frontmatter existingFile) ''id'')
         \<and> \<not> truthy (getProp (file_frontmatter existingFile) ''space_id'')
       \<longrightarrow> hasConflict (generateUniqueFilename vault np now baseName folder)
         \<and> isManualNoteConflict (generateUniqueFilename vault np now baseName folder)
         \<and> (\<forall>k. 1 \<le> k \<and> k \<le> maxCounter
                \<and> getAbstractFileByPath vault
                     (notePath np folder (sanitizeFilename baseName @ '' '' @ showNat k)) = None
                \<and> (\<forall>j. 1 \<le> j \<and> j < k \<longrightarrow>
                      getAbstractFileByPath vault
                        (notePath np folder (sanitizeFilename baseName @ '' '' @ showNat j)) \<noteq> None)
              \<longrightarrow> filename (generateUniqueFilename vault np now baseName folder)
                    = sanitizeFilename baseName @ '' '' @ showNat k)
         \<and> ((\<forall>j. 1 \<le> j \<and> j \<le> maxCounter \<longrightarrow>
                 getAbstractFileByPath vault
                   (notePath np folder (sanitizeFilename baseName @ '' '' @ showNat j)) \<noteq> None)
              \<longrightarrow> filename (generateUniqueFilename vault np now baseName folder)
                    = sanitizeFilename baseName @ '' '' @ showInt now)
         \<and> (\<forall>object yaml. obj_name object = baseName \<longrightarrow>
               (case createNewNote vault np now object yaml folder of
                  Inl (e, vault') \<Rightarrow>
                    getAbstractFileByPath vault' (notePath np folder (sanitizeFilename baseName))
                      = Some existingFile
                | Inr vault' \<Rightarrow>
                    getAbstractFileByPath vault' (notePath np folder (sanitizeFilename baseName))
                      = Some existingFile))"
  proof (rule allI, rule impI)
  fix existingFile
  let ?safe = "sanitizeFilename baseName"
  let ?r = "generateUniqueFilename vault np now baseName folder"
  let ?free = "\<lambda>k. getAbstractFileByPath vault (notePath np folder (?safe @ '' '' @ showNat k)) = None"
  assume a: "getAbstractFileByPath vault (notePath np folder ?safe) = Some existingFile
         \<and> \<not> truthy (getProp (file_frontmatter existingFile) ''id'')
         \<and> \<not> truthy (getProp (file_frontmatter existingFile) ''space_id'')"
  have flags: "hasConflict ?r \<and> isManualNoteConflict ?r"
    using a
    by (simp add: generateUniqueFilename_unfold split: option.splits)
  have name: "filename ?r = (case findFreeCounter vault np folder ?safe 1 of
                               Some counter \<Rightarrow> ?safe @ '' '' @ showNat counter
                             | None \<Rightarrow> ?safe @ '' '' @ showInt now)"
    using a
    by (simp add: generateUniqueFilename_unfold split: option.splits)
  have least: "\<forall>k. 1 \<le> k \<and> k \<le> maxCounter \<and> ?free k \<and> (\<forall>j. 1 \<le> j \<and> j < k \<longrightarrow> \<not> ?free j)
                 \<longrightarrow> filename ?r = ?safe @ '' '' @ showNat k"
  proof (intro allI impI)
    fix k
    assume k: "1 \<le> k \<and> k \<le> maxCounter \<and> ?free k \<and> (\<forall>j. 1 \<le> j \<and> j < k \<longrightarrow> \<not> ?free j)"
    show "filename ?r = ?safe @ '' '' @ showNat k"
    proof (cases "findFreeCounter vault np folder ?safe 1")
      case None
      from findFreeCounter_None [OF None] k show ?thesis by blast
    next
      case (Some k')
      from findFreeCounter_Some [OF Some]
      have k': "1 \<le> k'" "k' \<le> maxCounter" "?free k'" "\<forall>j. 1 \<le> j \<and> j < k' \<longrightarrow> \<not> ?free j"
        by blast+
      have "k' = k"
      proof (rule ccontr)
        assume "k' \<noteq> k"
        then consider "k' < k" | "k < k'" by arith
        then show False
        proof cases
          case 1
          with k k' show False by blast
        next
          case 2
          with k k' show False by blast
        qed
      qed
      with Some name show ?thesis by simp
    qed
  qed
  have none: "(\<forall>j. 1 \<le> j \<and> j \<le> maxCounter \<longrightarrow> \<not> ?free j)
                \<longrightarrow> filename ?r = ?safe @ '' '' @ showInt now"
  proof
    assume all: "\<forall>j. 1 \<le> j \<and> j \<le> maxCounter \<longrightarrow> \<not> ?free j"
    show "filename ?r = ?safe @ '' '' @ showInt now"
    proof (cases "findFreeCounter vault np folder ?safe 1")
      case None
      with name show ?thesis by simp
    next
      case (Some k')
      from findFreeCounter_Some [OF Some] all show ?thesis by blast
    qed
  qed
  have keep: "\<forall>object yaml. obj_name object = baseName \<longrightarrow>
             (case createNewNote vault np now object yaml folder of
                Inl (e, vault') \<Rightarrow> getAbstractFileByPath vault' (notePath np folder ?safe) = Some existingFile
              | Inr vault' \<Rightarrow> getAbstractFileByPath vault' (notePath np folder ?safe) = Some existingFile)"
    using createNewNote_keeps a by blast
  from flags least none keep
  show "hasConflict ?r \<and> isManualNoteConflict ?r
         \<and> (\<forall>k. 1 \<le> k \<and> k \<le> maxCounter \<and> ?free k \<and> (\<forall>j. 1 \<le> j \<and> j < k \<longrightarrow> \<not> ?free j)
              \<longrightarrow> filename ?r = ?safe @ '' '' @ showNat k)
         \<and> ((\<forall>j. 1 \<le> j \<and> j \<le> maxCounter \<longrightarrow> \<not> ?free j)
              \<longrightarrow> filename ?r = ?safe @ '' '' @ showInt now)
         \<and> (\<forall>object yaml. obj_name object = baseName \<longrightarrow>
               (case createNewNote vault np now object yaml folder of
                  Inl (e, vault') \<Rightarrow>
                    getAbstractFileByPath vault' (notePath np folder ?safe) = Some existingFile
                | Inr vault' \<Rightarrow>
                    getAbstractFileByPath vault' (notePath np folder ?safe) = Some existingFile))"
    by blast
  qed
qed

text \<open>The claim as stated takes any existing document titled \<^verbatim>\<open>Foo\<close> without identity headers
  for a collision. With the manual note \<^verbatim>\<open>Foo\<close> in the folder \<^verbatim>\<open>Notes\<close> and no import folder,
  and with the manual note \<^verbatim>\<open>Foo\<close> at the root and the import folder \<^verbatim>\<open>Imported\<close>, the new
  object \<^verbatim>\<open>Foo\<close> is named \<^verbatim>\<open>Foo\<close>, and no flag is raised.\<close>

theorem manual_note_elsewhere_counterexample:
  "generateUniqueFilename
      \<lparr>vault_files = [\<lparr>file_path = ''Notes/Foo.md'', file_basename = ''Foo'', file_parent = ''Notes'',
                        file_content = ''my own note'', file_frontmatter = []\<rparr>],
        vault_folders = [''Notes''], vault_failing = []\<rparr> (\<lambda>p. p) 1700000000000 ''Foo'' ''''
     = \<lparr>filename = ''Foo'', hasConflict = False, isManualNoteConflict = False\<rparr>
   \<and> generateUniqueFilename
      \<lparr>vault_files = [\<lparr>file_path = ''Foo.md'', file_basename = ''Foo'', file_parent = '''',
                        file_content = ''my own note'', file_frontmatter = []\<rparr>],
        vault_folders = [], vault_failing = []\<rparr> (\<lambda>p. p) 1700000000000 ''Foo'' ''Imported''
     = \<lparr>filename = ''Foo'', hasConflict = False, isManualNoteConflict = False\<rparr>"
  by code_simp

text \<open>A run: the vault holds the manual note \<^verbatim>\<open>Foo.md\<close> at its root and no import folder is
  set; the new object \<^verbatim>\<open>Foo\<close> is named \<^verbatim>\<open>Foo 1\<close>.\<close>

theorem unique_filename_manual_collision_witness:
  "sanitizeFilename ''Foo'' = ''Foo''
   \<and> generateUniqueFilename
        \<lparr>vault_files = [\<lparr>file_path = ''Foo.md'', file_basename = ''Foo'', file_parent = '''',
                          file_content = ''my own note'', file_frontmatter = []\<rparr>],
          vault_folders = [], vault_failing = []\<rparr> (\<lambda>p. p) 1700000000000 ''Foo'' ''''
       = \<lparr>filename = ''Foo 1'', hasConflict = True, isManualNoteConflict = True\<rparr>"
proof -
  let ?f = "\<lparr>file_path = ''Foo.md'', file_basename = ''Foo'', file_parent = '''',
                          file_content = ''my own note'', file_frontmatter = []\<rparr>"
  let ?v = "\<lparr>vault_files = [?f], vault_folders = [], vault_failing = []\<rparr>"
  let ?r = "generateUniqueFilename ?v (\<lambda>p. p) 1700000000000 ''Foo'' ''''"
  have s: "sanitizeFilename ''Foo'' = ''Foo''" by code_simp
  have ex: "getAbstractFileByPath ?v (notePath (\<lambda>p. p) '''' (sanitizeFilename ''Foo'')) = Some ?f"
    by code_simp
  have m1: "\<not> truthy (getProp (file_frontmatter ?f) ''id'')" by (simp add: getProp_def)
  have m2: "\<not> truthy (getProp (file_frontmatter ?f) ''space_id'')" by (simp add: getProp_def)
  have one: "showNat 1 = ''1''" by code_simp
  have free1: "(1::nat) \<le> 1 \<and> 1 \<le> maxCounter
      \<and> getAbstractFileByPath ?v (notePath (\<lambda>p. p) '''' (sanitizeFilename ''Foo'' @ '' '' @ showNat 1)) = None
      \<and> (\<forall>j. 1 \<le> j \<and> j < 1 \<longrightarrow>
            getAbstractFileByPath ?v (notePath (\<lambda>p. p) '''' (sanitizeFilename ''Foo'' @ '' '' @ showNat j)) \<noteq> None)"
    unfolding s one by (simp add: maxCounter_def getAbstractFileByPath_def notePath_def trim_def)
  from unique_filename_manual_collision [of ?v "\<lambda>p. p" "''''" "''Foo''" 1700000000000] ex m1 m2 free1
  have "hasConflict ?r \<and> isManualNoteConflict ?r
      \<and> filename ?r = sanitizeFilename ''Foo'' @ '' '' @ showNat 1" by blast
  with s one have "hasConflict ?r \<and> isManualNoteConflict ?r \<and> filename ?r = ''Foo 1''" by simp
  then have "?r = \<lparr>filename = ''Foo 1'', hasConflict = True, isManualNoteConflict = True\<rparr>"
    by (cases ?r) simp
  with s show ?thesis by blast
qed

section \<open>The fallback header\<close>









section \<open>Safe import\<close>

text \<open>
  C2, at a failing input. The remote object \<^verbatim>\<open>obj1\<close> is named \<^verbatim>\<open>Release---\<close>. Its note is the
  one a first import wrote: the generated header followed by the body \<^verbatim>\<open>Body\<close>. The
  header line \<^verbatim>\<open>name: Release---\<close> ends in three dashes and a line feed, which is where
  the pattern of the safe import ends the header; the closing marker becomes part of the
  body, and the import with safe mode enabled writes the header followed by a marker
  line, an empty line and \<^verbatim>\<open>Body\<close>.
\<close>

theorem safe_import_dashes_in_header:
  "generateYamlFrontmatter rt
      \<lparr>obj_id = JStr ''obj1'', obj_name = ''Release---'', obj_type_key = ''page'', obj_markdown = ''Body'',
        obj_space_id = ''space1'', obj_properties = []\<rparr> True None
     = ''---\<newline>id: obj1\<newline>space_id: space1\<newline>type_key: page\<newline>name: Release---\<newline>---\<newline>\<newline>''
   \<and> existingBody (''---\<newline>id: obj1\<newline>space_id: space1\<newline>type_key: page\<newline>name: Release---\<newline>---\<newline>\<newline>'' @ ''Body'')
     = ''---\<newline>\<newline>'' @ ''Body''
   \<and> createOrUpdateObsidianNote rt (\<lambda>p. p) 1000
      \<lparr>obj_id = JStr ''obj1'', obj_name = ''Release---'', obj_type_key = ''page'', obj_markdown = ''Body'',
        obj_space_id = ''space1'', obj_properties = []\<rparr> True True ''''
      \<lparr>vault_files =
          [\<lparr>file_path = ''Release.md'', file_basename = ''Release'', file_parent = '''',
            file_content = ''---\<newline>id: obj1\<newline>space_id: space1\<newline>type_key: page\<newline>name: Release---\<newline>---\<newline>\<newline>'' @ ''Body'',
            file_frontmatter = [(''id'', JStr ''obj1''), (''space_id'', JStr ''space1''),
                                (''type_key'', JStr ''page''), (''name'', JStr ''Release---'')]\<rparr>],
        vault_folders = [], vault_failing = []\<rparr>
     = Inr \<lparr>vault_files =
          [\<lparr>file_path = ''Release.md'', file_basename = ''Release'', file_parent = '''',
            file_content = ''---\<newline>id: obj1\<newline>space_id: space1\<newline>type_key: page\<newline>name: Release---\<newline>---\<newline>\<newline>'' @ ''---\<newline>\<newline>'' @ ''Body'',
            file_frontmatter = [(''id'', JStr ''obj1''), (''space_id'', JStr ''space1''),
                                (''type_key'', JStr ''page''), (''name'', JStr ''Release---'')]\<rparr>],
        vault_folders = [], vault_failing = []\<rparr>"
  by code_simp

end
